theory Spec2Isabelle
  imports Main "HOL-Library.Word"
begin

section \<open>Python strings\<close>

text \<open>
  A Python \<^verbatim>\<open>str\<close> is modelled as a \<^typ>\<open>string\<close>; a character stands for the
  code point of the same number, so the model covers the code points below 256.
  \<^verbatim>\<open>len\<close> is \<^const>\<open>length\<close>, a slice \<^verbatim>\<open>s[:n]\<close> is \<^const>\<open>take\<close>.
  Uploaded bytes are a list of octets.
\<close>

type_synonym bytes = "8 word list"

text \<open>\<^verbatim>\<open>str.lower()\<close> on code points below 256: A to Z, and U+00C0 to U+00DE
  without the multiplication sign U+00D7, move up by 32.\<close>

definition lower_char :: "char \<Rightarrow> char" where
  "lower_char c =
     (let n = (of_char c :: nat)
      in if (65 \<le> n \<and> n \<le> 90) \<or> (192 \<le> n \<and> n \<le> 222 \<and> n \<noteq> 215)
         then char_of (n + 32) else c)"

definition lower :: "string \<Rightarrow> string" where
  "lower s = map lower_char s"

text \<open>\<^verbatim>\<open>s.startswith(p)\<close> and \<^verbatim>\<open>s.endswith(x)\<close>.\<close>

definition startswith :: "string \<Rightarrow> string \<Rightarrow> bool" where
  "startswith s p = (take (length p) s = p)"

definition endswith :: "string \<Rightarrow> string \<Rightarrow> bool" where
  "endswith s x = (length x \<le> length s \<and> drop (length s - length x) s = x)"

text \<open>\<^verbatim>\<open>s.endswith((x1, ..., xn))\<close>: some element of the tuple is a suffix.\<close>

definition endswith_any :: "string \<Rightarrow> string list \<Rightarrow> bool" where
  "endswith_any s xs = list_ex (endswith s) xs"

text \<open>\<^verbatim>\<open>str.isspace\<close> on one character, for code points below 256: the ASCII
  white space 9 to 13 and 32, the separators 28 to 31, NEL (133) and the no-break
  space (160).\<close>

definition isspace :: "char \<Rightarrow> bool" where
  "isspace c =
     (let n = (of_char c :: nat)
      in (9 \<le> n \<and> n \<le> 13) \<or> (28 \<le> n \<and> n \<le> 32) \<or> n = 133 \<or> n = 160)"

text \<open>\<^verbatim>\<open>s.strip()\<close>: white space removed at both ends.\<close>

definition strip :: "string \<Rightarrow> string" where
  "strip s = rev (dropWhile isspace (rev (dropWhile isspace s)))"

text \<open>\<^verbatim>\<open>sep.join(xs)\<close>.\<close>

fun join :: "string \<Rightarrow> string list \<Rightarrow> string" where
  "join sep [] = []"
| "join sep [x] = x"
| "join sep (x # y # ys) = x @ sep @ join sep (y # ys)"

text \<open>The line feed, \<^verbatim>\<open>"\n"\<close>.\<close>

definition newline :: string where
  "newline = [char_of (10 :: nat)]"

section \<open>Exceptions\<close>

text \<open>
  The exceptions the pipeline tells apart: \<^verbatim>\<open>ValueError\<close>, which
  \<^verbatim>\<open>analyze\<close> catches first, and every other \<^verbatim>\<open>Exception\<close>; each carries
  \<^verbatim>\<open>str(e)\<close>. A function that may raise returns \<open>py_exn + 'a\<close>.
\<close>

datatype py_exn = ValueError string | OtherException string

text \<open>The two rejections raised by the extractor itself.\<close>

definition UnsupportedFormat :: py_exn where
  "UnsupportedFormat = ValueError ''Unsupported document type. Please upload PDF, DOCX, or TXT.''"

definition EmptyContent :: py_exn where
  "EmptyContent = ValueError ''No readable text found in the uploaded file.''"

section \<open>Content extractor: \<^verbatim>\<open>extract_text_from_file_bytes\<close>\<close>

text \<open>
  The parsers are libraries (PyPDF2, python-docx, the UTF-8 codec) and are taken as
  parameters. \<open>PdfReader\<close> gives the pages of a PDF or raises; a page's
  \<^verbatim>\<open>extract_text()\<close> returns a string, returns \<^verbatim>\<open>None\<close>, or raises.
  \<open>Document\<close> gives the texts of the paragraphs of a DOCX file or raises.
  \<open>decode_utf8_ignore\<close> is \<^verbatim>\<open>raw_bytes.decode("utf-8", errors="ignore")\<close>,
  which never raises.
\<close>

datatype page = PageText "string option" | PageRaises

record parsers =
  PdfReader :: "bytes \<Rightarrow> py_exn + page list"
  Document :: "bytes \<Rightarrow> py_exn + string list"
  decode_utf8_ignore :: "bytes \<Rightarrow> string"

text \<open>\<^verbatim>\<open>x or ""\<close> for \<open>x\<close> a string or \<^verbatim>\<open>None\<close>.\<close>

fun or_empty :: "string option \<Rightarrow> string" where
  "or_empty None = []"
| "or_empty (Some t) = t"

text \<open>The loop over \<^verbatim>\<open>reader.pages\<close>: \<^verbatim>\<open>page.extract_text() or ""\<close> is
  appended; on an exception the loop goes on to the next page
  (\<^verbatim>\<open>except Exception: continue\<close>) and nothing is appended.\<close>

fun pages_text :: "page list \<Rightarrow> string list" where
  "pages_text [] = []"
| "pages_text (PageText t # ps) = or_empty t # pages_text ps"
| "pages_text (PageRaises # ps) = pages_text ps"

definition MAX_CHARS :: nat where
  "MAX_CHARS = 20000"

text \<open>The \<^verbatim>\<open>if/elif/else\<close> chain on the lowercased file name: the text as the
  format gives it, before the cap. The name is a \<^verbatim>\<open>str\<close>, on which
  \<^verbatim>\<open>filename or ""\<close> is the name itself.\<close>

definition read_text :: "parsers \<Rightarrow> string \<Rightarrow> bytes \<Rightarrow> py_exn + string" where
  "read_text ps filename raw_bytes =
     (let filename_lower = lower filename
      in if endswith filename_lower ''.pdf'' then
           (case PdfReader ps raw_bytes of
              Inl e \<Rightarrow> Inl e
            | Inr pages \<Rightarrow> Inr (join newline (pages_text pages)))
         else if endswith filename_lower ''.docx'' then
           (case Document ps raw_bytes of
              Inl e \<Rightarrow> Inl e
            | Inr paragraphs \<Rightarrow> Inr (join newline paragraphs))
         else if endswith filename_lower ''.txt'' then
           Inr (decode_utf8_ignore ps raw_bytes)
         else Inl UnsupportedFormat)"

text \<open>The cap and the blank test that follow the chain.\<close>

definition limit_text :: "string \<Rightarrow> py_exn + string" where
  "limit_text text0 =
     (let text = (if length text0 > MAX_CHARS then take MAX_CHARS text0 else text0)
      in if strip text = [] then Inl EmptyContent else Inr text)"

definition extract_text_from_file_bytes ::
  "parsers \<Rightarrow> string \<Rightarrow> bytes \<Rightarrow> py_exn + string" where
  "extract_text_from_file_bytes ps filename raw_bytes =
     (case read_text ps filename raw_bytes of
        Inl e \<Rightarrow> Inl e
      | Inr text0 \<Rightarrow> limit_text text0)"

section \<open>Python values\<close>

text \<open>
  The values that travel through the pipeline: what \<^verbatim>\<open>json.loads\<close> returns
  (\<^verbatim>\<open>None\<close>, booleans, integers, floats, strings, lists, dictionaries with string
  keys) and the two BSON values the records hold besides (a \<^verbatim>\<open>datetime\<close>, as a
  number of time units since some epoch, and an \<^verbatim>\<open>ObjectId\<close>, as its string
  form). Floats are kept abstract in the type \<open>'f\<close>. A dictionary is the list of its
  items in insertion order; a key is looked up with \<^const>\<open>map_of\<close>.
\<close>

datatype 'f pyval =
    VNone
  | VBool bool
  | VInt int
  | VFloat 'f
  | VStr string
  | VList "'f pyval list"
  | VDict "(string \<times> 'f pyval) list"
  | VDatetime nat
  | VObjectId string

type_synonym 'f pydict = "(string \<times> 'f pyval) list"

text \<open>\<^verbatim>\<open>d.get(k, default)\<close> and \<^verbatim>\<open>k in d\<close>.\<close>

definition dict_get :: "'f pydict \<Rightarrow> string \<Rightarrow> 'f pyval \<Rightarrow> 'f pyval" where
  "dict_get d k dflt = (case map_of d k of None \<Rightarrow> dflt | Some v \<Rightarrow> v)"

definition dict_has :: "'f pydict \<Rightarrow> string \<Rightarrow> bool" where
  "dict_has d k = (map_of d k \<noteq> None)"

text \<open>\<^verbatim>\<open>p in s\<close> on strings: \<open>p\<close> occurs in \<open>s\<close>.\<close>

fun contains_str :: "string \<Rightarrow> string \<Rightarrow> bool" where
  "contains_str [] p = (p = [])"
| "contains_str (c # cs) p = (startswith (c # cs) p \<or> contains_str cs p)"

text \<open>\<^verbatim>\<open>str(n)\<close> for an integer: decimal digits, with a minus sign below zero.\<close>

function str_nat :: "nat \<Rightarrow> string" where
  "str_nat n =
     (if n < 10 then [char_of (48 + n)]
      else str_nat (n div 10) @ [char_of (48 + n mod 10)])"
  by pat_completeness auto
termination
  by (relation "measure (\<lambda>n. n)") auto

declare str_nat.simps [simp del]

definition str_int :: "int \<Rightarrow> string" where
  "str_int i = (if i < 0 then CHR ''-'' # str_nat (nat (- i)) else str_nat (nat i))"

text \<open>
  What the Python library decides and the model takes as given: \<open>lib_str\<close> is
  \<^verbatim>\<open>str(v)\<close> for a float, a list, a dictionary or a datetime; \<open>float_is_zero\<close>
  tells whether a float is \<^verbatim>\<open>0.0\<close> (its truth value); \<open>strftime\<close> is
  \<^verbatim>\<open>ts.strftime("%Y-%m-%d %H:%M:%S")\<close>.
\<close>

record 'f pylib =
  lib_str :: "'f pyval \<Rightarrow> string"
  float_is_zero :: "'f \<Rightarrow> bool"
  strftime :: "nat \<Rightarrow> string"

text \<open>\<^verbatim>\<open>str(v)\<close>, which is also what an f-string \<^verbatim>\<open>f"{v}"\<close> inserts.\<close>

definition py_str :: "'f pylib \<Rightarrow> 'f pyval \<Rightarrow> string" where
  "py_str lib v =
     (case v of
        VNone \<Rightarrow> ''None''
      | VBool b \<Rightarrow> (if b then ''True'' else ''False'')
      | VInt i \<Rightarrow> str_int i
      | VStr s \<Rightarrow> s
      | VObjectId h \<Rightarrow> h
      | _ \<Rightarrow> lib_str lib v)"


text \<open>\<^verbatim>\<open>isinstance(v, (int, float))\<close>; \<^verbatim>\<open>bool\<close> is a subclass of \<^verbatim>\<open>int\<close>.\<close>

definition is_int_or_float :: "'f pyval \<Rightarrow> bool" where
  "is_int_or_float v =
     (case v of VInt i \<Rightarrow> True | VFloat x \<Rightarrow> True | VBool b \<Rightarrow> True | _ \<Rightarrow> False)"

section \<open>Evaluator client: \<^verbatim>\<open>evaluate_textbook_gemini\<close>\<close>

text \<open>
  The request body \<^verbatim>\<open>contents\<close> is a list of parts: the fixed prompt, the text,
  the image with its MIME type. The configured client is a parameter: given the
  contents it stands for the whole \<^verbatim>\<open>try\<close> block, the call to the model
  followed by \<^verbatim>\<open>json.loads(response.text)\<close>, and either raises or gives the parsed
  value. An absent client is \<^verbatim>\<open>client is None\<close>. The schema sent along is a
  request to the model; the code does not check the answer against it.
\<close>

datatype part = Prompt | TextPart string | ImagePart bytes string

type_synonym 'f gemini = "part list \<Rightarrow> py_exn + 'f pyval"

definition exn_str :: "py_exn \<Rightarrow> string" where
  "exn_str e = (case e of ValueError m \<Rightarrow> m | OtherException m \<Rightarrow> m)"

definition error_dict :: "string \<Rightarrow> 'f pyval" where
  "error_dict msg = VDict [(''error'', VStr msg)]"

definition ClientUnavailable :: "'f pyval" where
  "ClientUnavailable =
     error_dict ''Analysis Error: Gemini Client not initialized. Set GEMINI_API_KEY correctly.''"

definition NoContent :: "'f pyval" where
  "NoContent = error_dict ''No content to analyze.''"

definition InvocationFailed :: "py_exn \<Rightarrow> 'f pyval" where
  "InvocationFailed e =
     error_dict (''Analysis Error: API call failed or returned invalid data. Details: '' @ exn_str e)"

text \<open>\<^verbatim>\<open>text_content and text_content.strip()\<close> as a condition.\<close>

definition has_text :: "string option \<Rightarrow> bool" where
  "has_text text_content =
     (case text_content of None \<Rightarrow> False | Some s \<Rightarrow> s \<noteq> [] \<and> strip s \<noteq> [])"

text \<open>\<^verbatim>\<open>image_mime or "image/jpeg"\<close>.\<close>

definition mime_or_default :: "string option \<Rightarrow> string" where
  "mime_or_default image_mime =
     (case image_mime of
        None \<Rightarrow> ''image/jpeg''
      | Some m \<Rightarrow> (if m = [] then ''image/jpeg'' else m))"

definition build_contents :: "string option \<Rightarrow> bytes option \<Rightarrow> string option \<Rightarrow> part list" where
  "build_contents text_content image_bytes image_mime =
     [Prompt]
     @ (case text_content of
          None \<Rightarrow> []
        | Some s \<Rightarrow> (if has_text text_content then [TextPart s] else []))
     @ (case image_bytes of
          None \<Rightarrow> []
        | Some b \<Rightarrow> [ImagePart b (mime_or_default image_mime)])"

definition evaluate_textbook_gemini ::
  "'f gemini option \<Rightarrow> string option \<Rightarrow> bytes option \<Rightarrow> string option \<Rightarrow> 'f pyval" where
  "evaluate_textbook_gemini client text_content image_bytes image_mime =
     (case client of
        None \<Rightarrow> ClientUnavailable
      | Some generate \<Rightarrow>
          if \<not> has_text text_content \<and> image_bytes = None then NoContent
          else (case generate (build_contents text_content image_bytes image_mime) of
                  Inl e \<Rightarrow> InvocationFailed e
                | Inr v \<Rightarrow> v))"

section \<open>Pipeline orchestrator: the route \<^verbatim>\<open>analyze\<close>\<close>

text \<open>
  The request: the session cookie (whether the key \<^verbatim>\<open>logged_in\<close> is present, and
  the values under \<^verbatim>\<open>user_id\<close> and \<^verbatim>\<open>username\<close> when present) and the uploaded
  file, if any, with its name and declared MIME type (each possibly absent) and
  its bytes.
\<close>

record session =
  s_logged_in :: bool
  s_user_id :: "string option"
  s_username :: "string option"

record upload =
  up_filename :: "string option"
  up_content_type :: "string option"
  up_bytes :: bytes

text \<open>
  The two stores: the GridFS blob store of the uploaded originals and the
  collection \<^verbatim>\<open>evaluations\<close>, a list of documents in insertion order. The
  \<^verbatim>\<open>_id\<close> that MongoDB adds to an inserted document is not modelled; nothing
  in the pipeline reads it.
\<close>

record stored_file =
  sf_id :: string
  sf_bytes :: bytes
  sf_filename :: string
  sf_content_type :: string
  sf_uploaded_at :: nat
  sf_user_id :: string

record 'f db =
  files :: "stored_file list"
  evaluations :: "'f pydict list"

text \<open>
  What one request to \<^verbatim>\<open>analyze\<close> meets outside the code: the parsers, the
  configured client (or none), the Python library, the outcome of
  \<^verbatim>\<open>files_fs.put\<close> (the new file id, or an exception), the constructor
  \<^verbatim>\<open>ObjectId\<close> (which raises on a string that is no id), whether
  \<^verbatim>\<open>insert_one\<close> raises, and the two readings of the clock.
\<close>

record 'f env =
  env_parsers :: parsers
  env_client :: "'f gemini option"
  env_lib :: "'f pylib"
  env_put :: "py_exn + string"
  env_ObjectId :: "string \<Rightarrow> py_exn + string"
  env_insert_raises :: "py_exn option"
  env_uploaded_at :: nat
  env_timestamp :: nat

text \<open>
  What the route returns: \<^verbatim>\<open>jsonify(body), status\<close>, or, when an exception
  leaves the route, the framework's own answer with status 500 and no JSON body.
\<close>

datatype 'f response = Json nat "'f pyval" | InternalServerError

text \<open>The name the route works with: a missing or empty upload name is replaced.\<close>

definition effective_filename :: "string option \<Rightarrow> string" where
  "effective_filename name =
     (case name of
        None \<Rightarrow> ''camera_capture.jpg''
      | Some n \<Rightarrow> (if n = [] then ''camera_capture.jpg'' else n))"

text \<open>\<^verbatim>\<open>files_fs.put(file_bytes, filename=..., content_type=..., uploaded_at=...,
  user_id=...)\<close>.\<close>

definition fs_put ::
  "'f env \<Rightarrow> bytes \<Rightarrow> string \<Rightarrow> string \<Rightarrow> string \<Rightarrow> 'f db \<Rightarrow> py_exn + (string \<times> 'f db)" where
  "fs_put env file_bytes filename content_type user_id db =
     (case env_put env of
        Inl e \<Rightarrow> Inl e
      | Inr file_id \<Rightarrow>
          Inr (file_id,
               db\<lparr>files := files db @
                 [\<lparr>sf_id = file_id, sf_bytes = file_bytes, sf_filename = filename,
                   sf_content_type = content_type, sf_uploaded_at = env_uploaded_at env,
                   sf_user_id = user_id\<rparr>]\<rparr>))"

text \<open>The decision between image and document.\<close>

definition is_image :: "string \<Rightarrow> string \<Rightarrow> bool" where
  "is_image filename content_type =
     (let lower_name = lower filename
      in startswith content_type ''image/''
         \<or> endswith_any lower_name [''.png'', ''.jpg'', ''.jpeg'', ''.webp'', ''.bmp'', ''.gif''])"

text \<open>The three variables the decision fills.\<close>

record payload =
  text_content :: "string option"
  image_bytes :: "bytes option"
  image_mime :: "string option"

definition classify :: "parsers \<Rightarrow> string \<Rightarrow> string \<Rightarrow> bytes \<Rightarrow> py_exn + payload" where
  "classify ps filename content_type file_bytes =
     (if is_image filename content_type then
        Inr \<lparr>text_content = None,
             image_bytes = Some file_bytes,
             image_mime = Some (if startswith content_type ''image/'' then content_type
                                else ''image/jpeg'')\<rparr>
      else
        (case extract_text_from_file_bytes ps filename file_bytes of
           Inl e \<Rightarrow> Inl e
         | Inr t \<Rightarrow> Inr \<lparr>text_content = Some t, image_bytes = None, image_mime = None\<rparr>))"

text \<open>The \<^verbatim>\<open>try\<close> block: store the original, then classify. An exception of
  the classification leaves the stored original behind.\<close>

definition store_and_classify ::
  "'f env \<Rightarrow> string \<Rightarrow> string \<Rightarrow> string \<Rightarrow> bytes \<Rightarrow> 'f db
     \<Rightarrow> (py_exn + (string \<times> payload)) \<times> 'f db" where
  "store_and_classify env user_id filename content_type file_bytes db =
     (case fs_put env file_bytes filename content_type user_id db of
        Inl e \<Rightarrow> (Inl e, db)
      | Inr (file_id, db1) \<Rightarrow>
          (case classify (env_parsers env) filename content_type file_bytes of
             Inl e \<Rightarrow> (Inl e, db1)
           | Inr p \<Rightarrow> (Inr (file_id, p), db1)))"

text \<open>The two \<^verbatim>\<open>except\<close> clauses of the block.\<close>

definition rejection :: "py_exn \<Rightarrow> 'f response" where
  "rejection e =
     (case e of
        ValueError m \<Rightarrow> Json 400 (error_dict m)
      | OtherException m \<Rightarrow> Json 400 (error_dict (''Failed to process file: '' @ m)))"

text \<open>\<^verbatim>\<open>"error" in evaluation_data\<close>: a key of a dictionary, an element of a
  list, a substring of a string; on any other value the test raises
  \<^verbatim>\<open>TypeError\<close> (\<open>None\<close> here).\<close>

definition has_error :: "'f pyval \<Rightarrow> bool option" where
  "has_error v =
     (case v of
        VDict d \<Rightarrow> Some (dict_has d ''error'')
      | VList xs \<Rightarrow> Some (list_ex (\<lambda>x. x = VStr ''error'') xs)
      | VStr s \<Rightarrow> Some (contains_str s ''error'')
      | _ \<Rightarrow> None)"

text \<open>The display string of the overall rating.\<close>

definition overall_str :: "'f pylib \<Rightarrow> 'f pydict \<Rightarrow> string" where
  "overall_str lib evaluation_data =
     (let overall_num = dict_get evaluation_data ''overall_rating'' VNone
      in if is_int_or_float overall_num then py_str lib overall_num @ ''/5''
         else if overall_num \<noteq> VNone then py_str lib overall_num
         else ''No rating'')"

text \<open>The document handed to \<^verbatim>\<open>insert_one\<close>.\<close>

definition eval_doc ::
  "'f env \<Rightarrow> session \<Rightarrow> string \<Rightarrow> string \<Rightarrow> string \<Rightarrow> string \<Rightarrow> payload \<Rightarrow> 'f pydict
     \<Rightarrow> 'f pydict" where
  "eval_doc env sess oid file_id filename content_type p evaluation_data =
     [(''user_id'', VObjectId oid),
      (''username'', (case s_username sess of None \<Rightarrow> VNone | Some u \<Rightarrow> VStr u)),
      (''timestamp'', VDatetime (env_timestamp env)),
      (''input_type'', VStr (if image_bytes p \<noteq> None then ''image'' else ''document'')),
      (''file_id'', VObjectId file_id),
      (''original_filename'', VStr filename),
      (''content_type'', VStr content_type),
      (''accuracy_score'', dict_get evaluation_data ''accuracy_score'' VNone),
      (''readability_score'', dict_get evaluation_data ''readability_score'' VNone),
      (''consistency_score'', dict_get evaluation_data ''consistency_score'' VNone),
      (''accuracy_text'', dict_get evaluation_data ''accuracy'' (VStr [])),
      (''readability_text'', dict_get evaluation_data ''readability'' (VStr [])),
      (''consistency_text'', dict_get evaluation_data ''consistency'' (VStr [])),
      (''overall_rating_value'', dict_get evaluation_data ''overall_rating'' VNone),
      (''overall_rating'', VStr (overall_str (env_lib env) evaluation_data)),
      (''summary'', dict_get evaluation_data ''summary'' (VStr [])),
      (''full_extracted_text'',
         (case text_content p of
            None \<Rightarrow> VNone
          | Some t \<Rightarrow> (if t = [] then VNone else VStr t))),
      (''raw_evaluation'', VDict evaluation_data)]"

text \<open>The save step: the \<^verbatim>\<open>try\<close> around building the document and
  \<^verbatim>\<open>insert_one\<close>; an exception is printed and the store stays as it was.\<close>

definition save_evaluation ::
  "'f env \<Rightarrow> session \<Rightarrow> string \<Rightarrow> string \<Rightarrow> string \<Rightarrow> string \<Rightarrow> payload \<Rightarrow> 'f pydict
     \<Rightarrow> 'f db \<Rightarrow> 'f db" where
  "save_evaluation env sess user_id file_id filename content_type p evaluation_data db =
     (case env_ObjectId env user_id of
        Inl e \<Rightarrow> db
      | Inr oid \<Rightarrow>
          (case env_insert_raises env of
             Some e \<Rightarrow> db
           | None \<Rightarrow>
               db\<lparr>evaluations := evaluations db @
                 [eval_doc env sess oid file_id filename content_type p evaluation_data]\<rparr>))"

text \<open>The body of the success response.\<close>

definition unavailable :: "'f pyval" where
  "unavailable = VStr ''AI analysis unavailable.''"

definition response_body :: "'f pydict \<Rightarrow> 'f pyval" where
  "response_body evaluation_data =
     VDict
      [(''accuracy_score'', dict_get evaluation_data ''accuracy_score'' VNone),
       (''accuracy'', dict_get evaluation_data ''accuracy'' unavailable),
       (''readability_score'', dict_get evaluation_data ''readability_score'' VNone),
       (''readability'', dict_get evaluation_data ''readability'' unavailable),
       (''consistency_score'', dict_get evaluation_data ''consistency_score'' VNone),
       (''consistency'', dict_get evaluation_data ''consistency'' unavailable),
       (''overall_rating'', dict_get evaluation_data ''overall_rating'' unavailable),
       (''summary'', dict_get evaluation_data ''summary'' unavailable)]"

text \<open>From the call of the evaluator to the response. A value that is not a
  dictionary and passes the error test has no \<^verbatim>\<open>get\<close>: the exception leaves the
  route.\<close>

definition evaluate_and_respond ::
  "'f env \<Rightarrow> session \<Rightarrow> string \<Rightarrow> string \<Rightarrow> string \<Rightarrow> string \<Rightarrow> payload \<Rightarrow> 'f db
     \<Rightarrow> 'f response \<times> 'f db" where
  "evaluate_and_respond env sess user_id file_id filename content_type p db =
     (let evaluation_data =
            evaluate_textbook_gemini (env_client env)
              (Some (or_empty (text_content p))) (image_bytes p) (image_mime p)
      in case has_error evaluation_data of
           None \<Rightarrow> (InternalServerError, db)
         | Some True \<Rightarrow> (Json 500 evaluation_data, db)
         | Some False \<Rightarrow>
             (case evaluation_data of
                VDict d \<Rightarrow>
                  (Json 200 (response_body d),
                   save_evaluation env sess user_id file_id filename content_type p d db)
              | _ \<Rightarrow> (InternalServerError, db)))"

definition analyze :: "'f env \<Rightarrow> session \<Rightarrow> upload option \<Rightarrow> 'f db \<Rightarrow> 'f response \<times> 'f db" where
  "analyze env sess file db =
     (case (s_logged_in sess, s_user_id sess) of
        (True, Some user_id) \<Rightarrow>
          (case file of
             None \<Rightarrow> (Json 400 (error_dict ''No file found in request''), db)
           | Some f \<Rightarrow>
               (let filename = effective_filename (up_filename f);
                    content_type = or_empty (up_content_type f)
                in case store_and_classify env user_id filename content_type (up_bytes f) db of
                     (Inl e, db1) \<Rightarrow> (rejection e, db1)
                   | (Inr (file_id, p), db1) \<Rightarrow>
                       evaluate_and_respond env sess user_id file_id filename content_type p db1))
      | _ \<Rightarrow> (Json 401 (error_dict ''Unauthorized''), db))"

section \<open>Evaluation store: the route \<^verbatim>\<open>user_history\<close>\<close>





section \<open>Example inputs\<close>

text \<open>A three-page book whose second page raises.\<close>

definition book_parsers :: parsers where
  "book_parsers =
     \<lparr>PdfReader = (\<lambda>_. Inr [PageText (Some ''a''), PageRaises, PageText (Some ''b'')]),
      Document = (\<lambda>_. Inr []),
      decode_utf8_ignore = (\<lambda>_. [])\<rparr>"

text \<open>A text file of 20001 letters.\<close>

definition long_parsers :: parsers where
  "long_parsers =
     \<lparr>PdfReader = (\<lambda>_. Inr []),
      Document = (\<lambda>_. Inr []),
      decode_utf8_ignore = (\<lambda>_. replicate 20001 (CHR ''a''))\<rparr>"

text \<open>Parsers that read one line of text from any file.\<close>

definition text_parsers :: parsers where
  "text_parsers =
     \<lparr>PdfReader = (\<lambda>_. Inr [PageText (Some ''Chapter 1'')]),
      Document = (\<lambda>_. Inr [''Chapter 1'']),
      decode_utf8_ignore = (\<lambda>_. ''Chapter 1'')\<rparr>"


text \<open>
  In the examples a float is named by the decimal numeral \<^verbatim>\<open>json.loads\<close> read
  it from: \<open>Decimal 42 1\<close> is the float of \<^verbatim>\<open>4.2\<close>, whose \<^verbatim>\<open>str\<close> is
  \<^verbatim>\<open>"4.2"\<close>. The example library renders that float and no other value.
\<close>

datatype decimal = Decimal int nat

definition example_lib :: "decimal pylib" where
  "example_lib =
     \<lparr>lib_str = (\<lambda>v. if v = VFloat (Decimal 42 1) then ''4.2'' else []),
      float_is_zero = (\<lambda>x. case x of Decimal m k \<Rightarrow> m = 0),
      strftime = (\<lambda>t. ''2024-01-01 00:00:00'')\<rparr>"

text \<open>The evaluator's answer of the specification's example, and the same answer
  without its \<^verbatim>\<open>summary\<close>.\<close>

definition good_result :: "decimal pydict" where
  "good_result =
     [(''accuracy_score'', VInt 90), (''accuracy'', VStr ''ok''),
      (''readability_score'', VInt 80), (''readability'', VStr ''ok''),
      (''consistency_score'', VInt 85), (''consistency'', VStr ''ok''),
      (''overall_rating'', VFloat (Decimal 42 1)), (''summary'', VStr ''Good.'')]"

definition no_summary_result :: "decimal pydict" where
  "no_summary_result =
     [(''accuracy_score'', VInt 90), (''accuracy'', VStr ''ok''),
      (''readability_score'', VInt 80), (''readability'', VStr ''ok''),
      (''consistency_score'', VInt 85), (''consistency'', VStr ''ok''),
      (''overall_rating'', VFloat (Decimal 42 1))]"

text \<open>
  The constructor \<^verbatim>\<open>ObjectId\<close> as the examples use it: a string of 24
  hexadecimal digits makes an id, whose string form is the digits in lower case,
  as in the bson library; every other string raises \<^verbatim>\<open>InvalidId\<close> here (the
  library also takes some strings of 24 characters with blanks between the digit
  pairs, which no example uses).
\<close>

definition is_hex_digit :: "char \<Rightarrow> bool" where
  "is_hex_digit c = (c \<in> set ''0123456789abcdefABCDEF'')"

definition example_ObjectId :: "string \<Rightarrow> py_exn + string" where
  "example_ObjectId s =
     (if length s = 24 \<and> list_all is_hex_digit s then Inr (lower s)
      else Inl (OtherException ''not a valid ObjectId''))"

text \<open>The id of the logged-in user, as \<^verbatim>\<open>login\<close> stores it
  (\<^verbatim>\<open>str(user["_id"])\<close>), and the id GridFS gives the stored file.\<close>

definition example_user_id :: string where
  "example_user_id = ''507f1f77bcf86cd799439011''"

definition example_file_id :: string where
  "example_file_id = ''65a1b2c3d4e5f60718293a4b''"

text \<open>An environment in which everything works and the evaluator answers with
  the given dictionary.\<close>

definition example_env :: "decimal pydict \<Rightarrow> decimal env" where
  "example_env answer =
     \<lparr>env_parsers = text_parsers,
      env_client = Some (\<lambda>contents. Inr (VDict answer)),
      env_lib = example_lib,
      env_put = Inr example_file_id,
      env_ObjectId = example_ObjectId,
      env_insert_raises = None,
      env_uploaded_at = 1000,
      env_timestamp = 1001\<rparr>"

definition example_session :: session where
  "example_session =
     \<lparr>s_logged_in = True, s_user_id = Some example_user_id, s_username = Some ''alice''\<rparr>"

definition empty_db :: "decimal db" where
  "empty_db = \<lparr>files = [], evaluations = []\<rparr>"

text \<open>Uploads: a text file, a file of an unknown type, and an image of zero bytes.\<close>

definition notes_txt :: upload where
  "notes_txt =
     \<lparr>up_filename = Some ''notes.txt'', up_content_type = Some ''text/plain'',
      up_bytes = [72, 105]\<rparr>"

definition notes_xyz :: upload where
  "notes_xyz =
     \<lparr>up_filename = Some ''notes.xyz'', up_content_type = Some ''application/octet-stream'',
      up_bytes = [72, 105]\<rparr>"

definition empty_png :: upload where
  "empty_png =
     \<lparr>up_filename = Some ''cover.png'', up_content_type = Some ''image/png'', up_bytes = []\<rparr>"





section \<open>Properties of the content extractor\<close>

lemma pages_text_filter:
  "pages_text pages =
     map (\<lambda>p. case p of PageText t \<Rightarrow> or_empty t | PageRaises \<Rightarrow> [])
       (filter (\<lambda>p. p \<noteq> PageRaises) pages)"
  by (induction pages rule: pages_text.induct) simp_all

lemma limit_text_eq:
  "limit_text t =
     (if strip (take MAX_CHARS t) = [] then Inl EmptyContent else Inr (take MAX_CHARS t))"
  by (simp add: limit_text_def Let_def)

text \<open>
  Claim C2, as the code has it. For a PDF upload whose reader opens, the extracted
  text is the newline join of the texts of the pages whose extraction did not raise,
  in page order. A page whose extraction returns \<^verbatim>\<open>None\<close> contributes the empty
  string; a page whose extraction raises is skipped and contributes no segment, so
  the number of joined segments is the number of pages that did not raise, which is
  at most the number of pages. The document is not aborted by a failing page.
\<close>

theorem pdf_pages_joined_skipping_failed:
  assumes "endswith (lower filename) ''.pdf''"
    and "PdfReader ps raw_bytes = Inr pages"
  shows "read_text ps filename raw_bytes = Inr (join newline (pages_text pages))
    \<and> pages_text pages =
        map (\<lambda>p. case p of PageText t \<Rightarrow> or_empty t | PageRaises \<Rightarrow> [])
          (filter (\<lambda>p. p \<noteq> PageRaises) pages)
    \<and> length (pages_text pages) = length (filter (\<lambda>p. p \<noteq> PageRaises) pages)
    \<and> length (pages_text pages) \<le> length pages
    \<and> extract_text_from_file_bytes ps filename raw_bytes =
        limit_text (join newline (pages_text pages))"
proof -
  have r: "read_text ps filename raw_bytes = Inr (join newline (pages_text pages))"
    using assms by (simp add: read_text_def)
  have f: "pages_text pages =
      map (\<lambda>p. case p of PageText t \<Rightarrow> or_empty t | PageRaises \<Rightarrow> [])
        (filter (\<lambda>p. p \<noteq> PageRaises) pages)"
    by (rule pages_text_filter)
  have n: "length (pages_text pages) = length (filter (\<lambda>p. p \<noteq> PageRaises) pages)"
    by (subst f) simp
  have l: "length (pages_text pages) \<le> length pages"
    by (subst n) (rule length_filter_le)
  have e: "extract_text_from_file_bytes ps filename raw_bytes =
      limit_text (join newline (pages_text pages))"
    by (simp add: extract_text_from_file_bytes_def r)
  from r f n l e show ?thesis by blast
qed

theorem pdf_pages_joined_skipping_failed_witness:
  "read_text book_parsers ''book.pdf'' [] = Inr (''a'' @ newline @ ''b'')
   \<and> length (pages_text [PageText (Some ''a''), PageRaises, PageText (Some ''b'')]) = 2
   \<and> extract_text_from_file_bytes book_parsers ''book.pdf'' [] = Inr (''a'' @ newline @ ''b'')"
proof -
  have h1: "endswith (lower ''book.pdf'') ''.pdf''"
    by code_simp
  have h2: "PdfReader book_parsers [] =
      Inr [PageText (Some ''a''), PageRaises, PageText (Some ''b'')]"
    by (simp add: book_parsers_def)
  have t: "take MAX_CHARS (''a'' @ newline @ ''b'') = ''a'' @ newline @ ''b''"
    by (simp add: MAX_CHARS_def newline_def)
  have s: "strip (take MAX_CHARS (''a'' @ newline @ ''b'')) \<noteq> []"
    unfolding t by code_simp
  show ?thesis
    using pdf_pages_joined_skipping_failed [OF h1 h2] s t
    by (simp add: limit_text_eq)
qed

text \<open>
  Claim C2 as stated fails: were a raising page to contribute an empty string, the
  three-page book would give \<^verbatim>\<open>"a\n\nb"\<close>, three segments; the code gives
  \<^verbatim>\<open>"a\nb"\<close>, two segments for three pages.
\<close>

theorem pdf_failed_page_is_skipped_counterexample:
  "extract_text_from_file_bytes book_parsers ''book.pdf'' [] = Inr (''a'' @ newline @ ''b'')
   \<and> extract_text_from_file_bytes book_parsers ''book.pdf'' [] \<noteq>
       Inr (join newline [''a'', [], ''b''])
   \<and> length (pages_text [PageText (Some ''a''), PageRaises, PageText (Some ''b'')]) \<noteq>
       length [PageText (Some ''a''), PageRaises, PageText (Some ''b'')]"
proof -
  have r: "read_text book_parsers ''book.pdf'' [] = Inr (''a'' @ newline @ ''b'')"
    by code_simp
  have t: "take MAX_CHARS (''a'' @ newline @ ''b'') = ''a'' @ newline @ ''b''"
    by (simp add: MAX_CHARS_def newline_def)
  have s: "strip (take MAX_CHARS (''a'' @ newline @ ''b'')) \<noteq> []"
    unfolding t by code_simp
  have e: "extract_text_from_file_bytes book_parsers ''book.pdf'' [] =
      Inr (''a'' @ newline @ ''b'')"
    using s t by (simp add: extract_text_from_file_bytes_def r limit_text_eq)
  show ?thesis
    by (simp add: e newline_def)
qed

text \<open>
  Claim C3. For a supported text format whose parser gives the text \<open>t\<close>, the
  extractor fails with \<open>EmptyContent\<close> exactly when the first 20000 characters of
  \<open>t\<close>, stripped of leading and trailing white space, are empty; otherwise it
  returns exactly the first 20000 characters of \<open>t\<close> (all of \<open>t\<close> when it is no
  longer), so the returned text has at most 20000 characters.
\<close>

theorem extract_caps_text_at_20000:
  assumes "read_text ps filename raw_bytes = Inr t"
  shows "(extract_text_from_file_bytes ps filename raw_bytes = Inl EmptyContent
            \<longleftrightarrow> strip (take 20000 t) = [])
    \<and> (strip (take 20000 t) \<noteq> [] \<longrightarrow>
          extract_text_from_file_bytes ps filename raw_bytes = Inr (take 20000 t))
    \<and> (\<forall>r. extract_text_from_file_bytes ps filename raw_bytes = Inr r \<longrightarrow>
          length r \<le> 20000 \<and> r = take 20000 t \<and> (length t \<le> 20000 \<longrightarrow> r = t))
    \<and> (\<forall>e. extract_text_from_file_bytes ps filename raw_bytes = Inl e \<longrightarrow>
          e = EmptyContent)"
proof -
  have e: "extract_text_from_file_bytes ps filename raw_bytes =
      (if strip (take 20000 t) = [] then Inl EmptyContent else Inr (take 20000 t))"
    using assms by (simp add: extract_text_from_file_bytes_def limit_text_eq MAX_CHARS_def)
  show ?thesis
    by (simp add: e)
qed

lemma strip_replicate: "\<not> isspace c \<Longrightarrow> strip (replicate n c) = replicate n c"
  by (cases n) (simp_all add: strip_def replicate_append_same)

theorem extract_caps_text_at_20000_witness:
  "read_text long_parsers ''notes.txt'' [] = Inr (replicate 20001 (CHR ''a''))
   \<and> extract_text_from_file_bytes long_parsers ''notes.txt'' [] =
       Inr (replicate 20000 (CHR ''a''))"
proof -
  have h: "read_text long_parsers ''notes.txt'' [] = Inr (replicate 20001 (CHR ''a''))"
    unfolding read_text_def Let_def long_parsers_def
    by (simp add: endswith_def lower_def lower_char_def char_of_eq_iff)
  have c: "\<not> isspace (CHR ''a'')"
    by (simp add: isspace_def)
  have tk: "take 20000 (replicate 20001 (CHR ''a'')) = replicate 20000 (CHR ''a'')"
    by simp
  have s: "strip (take 20000 (replicate 20001 (CHR ''a''))) \<noteq> []"
    by (simp add: strip_replicate [OF c])
  have "extract_text_from_file_bytes long_parsers ''notes.txt'' [] =
      Inr (take 20000 (replicate 20001 (CHR ''a'')))"
    using extract_caps_text_at_20000 [OF h] s by blast
  then have "extract_text_from_file_bytes long_parsers ''notes.txt'' [] =
      Inr (replicate 20000 (CHR ''a''))"
    by (simp only: tk)
  with h show ?thesis by blast
qed

section \<open>Properties of the classification\<close>

lemma limit_text_short:
  "length t \<le> 20000 \<Longrightarrow> limit_text t = (if strip t = [] then Inl EmptyContent else Inr t)"
  by (simp add: limit_text_def MAX_CHARS_def)

lemma is_image_iff:
  "is_image filename ct \<longleftrightarrow>
     startswith ct ''image/''
     \<or> (\<exists>ext \<in> set [''.png'', ''.jpg'', ''.jpeg'', ''.webp'', ''.bmp'', ''.gif''].
           endswith (lower filename) ext)"
  by (simp add: is_image_def endswith_any_def list_ex_iff Let_def)

theorem image_classification:
  "(is_image filename ct \<longleftrightarrow>
      startswith ct ''image/''
      \<or> (\<exists>ext \<in> set [''.png'', ''.jpg'', ''.jpeg'', ''.webp'', ''.bmp'', ''.gif''].
            endswith (lower filename) ext))
   \<and> (is_image filename ct \<longrightarrow>
        classify ps filename ct b =
          Inr \<lparr>text_content = None, image_bytes = Some b,
               image_mime = Some (if startswith ct ''image/'' then ct else ''image/jpeg'')\<rparr>)
   \<and> (\<not> is_image filename ct \<longrightarrow>
        classify ps filename ct b =
          (case extract_text_from_file_bytes ps filename b of
             Inl e \<Rightarrow> Inl e
           | Inr t \<Rightarrow> Inr \<lparr>text_content = Some t, image_bytes = None, image_mime = None\<rparr>))
   \<and> (\<forall>p. classify ps filename ct b = Inr p \<longrightarrow>
          (image_bytes p \<noteq> None \<longleftrightarrow> is_image filename ct)
        \<and> (text_content p \<noteq> None \<longleftrightarrow> \<not> is_image filename ct)
        \<and> (image_mime p \<noteq> None \<longleftrightarrow> is_image filename ct))"
proof -
  have a: "is_image filename ct \<longleftrightarrow>
      startswith ct ''image/''
      \<or> (\<exists>ext \<in> set [''.png'', ''.jpg'', ''.jpeg'', ''.webp'', ''.bmp'', ''.gif''].
            endswith (lower filename) ext)"
    by (rule is_image_iff)
  have b: "is_image filename ct \<longrightarrow>
        classify ps filename ct b =
          Inr \<lparr>text_content = None, image_bytes = Some b,
               image_mime = Some (if startswith ct ''image/'' then ct else ''image/jpeg'')\<rparr>"
    by (simp add: classify_def)
  have c: "\<not> is_image filename ct \<longrightarrow>
        classify ps filename ct b =
          (case extract_text_from_file_bytes ps filename b of
             Inl e \<Rightarrow> Inl e
           | Inr t \<Rightarrow> Inr \<lparr>text_content = Some t, image_bytes = None, image_mime = None\<rparr>)"
    by (simp add: classify_def)
  have d: "\<forall>p. classify ps filename ct b = Inr p \<longrightarrow>
          (image_bytes p \<noteq> None \<longleftrightarrow> is_image filename ct)
        \<and> (text_content p \<noteq> None \<longleftrightarrow> \<not> is_image filename ct)
        \<and> (image_mime p \<noteq> None \<longleftrightarrow> is_image filename ct)"
    by (auto simp: classify_def split: if_splits sum.splits)
  from a b c d show ?thesis by blast
qed

theorem image_classification_witness:
  "is_image ''scan.pdf'' ''image/png''
   \<and> classify text_parsers ''scan.pdf'' ''image/png'' [1, 2] =
       Inr \<lparr>text_content = None, image_bytes = Some [1, 2], image_mime = Some ''image/png''\<rparr>
   \<and> is_image ''cover.png'' ''application/octet-stream''
   \<and> classify text_parsers ''cover.png'' ''application/octet-stream'' [1, 2] =
       Inr \<lparr>text_content = None, image_bytes = Some [1, 2], image_mime = Some ''image/jpeg''\<rparr>
   \<and> \<not> is_image ''notes.txt'' ''text/plain''
   \<and> classify text_parsers ''notes.txt'' ''text/plain'' [1, 2] =
       Inr \<lparr>text_content = Some ''Chapter 1'', image_bytes = None, image_mime = None\<rparr>"
proof -
  have i1: "is_image ''scan.pdf'' ''image/png''"
    by code_simp
  have s1: "startswith ''image/png'' ''image/''"
    by code_simp
  have i2: "is_image ''cover.png'' ''application/octet-stream''"
    by code_simp
  have s2: "\<not> startswith ''application/octet-stream'' ''image/''"
    by code_simp
  have i3: "\<not> is_image ''notes.txt'' ''text/plain''"
    by code_simp
  have r3: "read_text text_parsers ''notes.txt'' [1, 2] = Inr ''Chapter 1''"
    by code_simp
  have n3: "strip ''Chapter 1'' \<noteq> []"
    by code_simp
  have e3: "extract_text_from_file_bytes text_parsers ''notes.txt'' [1, 2] = Inr ''Chapter 1''"
    using n3 by (simp add: extract_text_from_file_bytes_def r3 limit_text_short)
  have c1: "classify text_parsers ''scan.pdf'' ''image/png'' [1, 2] =
      Inr \<lparr>text_content = None, image_bytes = Some [1, 2],
           image_mime = Some (if startswith ''image/png'' ''image/'' then ''image/png''
                              else ''image/jpeg'')\<rparr>"
    using image_classification [of "''scan.pdf''" "''image/png''" text_parsers "[1, 2]"] i1
    by blast
  have c2: "classify text_parsers ''cover.png'' ''application/octet-stream'' [1, 2] =
      Inr \<lparr>text_content = None, image_bytes = Some [1, 2],
           image_mime = Some (if startswith ''application/octet-stream'' ''image/''
                              then ''application/octet-stream'' else ''image/jpeg'')\<rparr>"
    using image_classification
      [of "''cover.png''" "''application/octet-stream''" text_parsers "[1, 2]"] i2
    by blast
  have c3: "classify text_parsers ''notes.txt'' ''text/plain'' [1, 2] =
      (case extract_text_from_file_bytes text_parsers ''notes.txt'' [1, 2] of
         Inl e \<Rightarrow> Inl e
       | Inr t \<Rightarrow> Inr \<lparr>text_content = Some t, image_bytes = None, image_mime = None\<rparr>)"
    using image_classification [of "''notes.txt''" "''text/plain''" text_parsers "[1, 2]"] i3
    by blast
  have d1: "classify text_parsers ''scan.pdf'' ''image/png'' [1, 2] =
      Inr \<lparr>text_content = None, image_bytes = Some [1, 2], image_mime = Some ''image/png''\<rparr>"
    unfolding c1 using s1 by (simp only: if_True)
  have d2: "classify text_parsers ''cover.png'' ''application/octet-stream'' [1, 2] =
      Inr \<lparr>text_content = None, image_bytes = Some [1, 2], image_mime = Some ''image/jpeg''\<rparr>"
    unfolding c2 using s2 by (simp only: if_False)
  have d3: "classify text_parsers ''notes.txt'' ''text/plain'' [1, 2] =
      Inr \<lparr>text_content = Some ''Chapter 1'', image_bytes = None, image_mime = None\<rparr>"
    unfolding c3 e3 by (simp only: sum.case)
  from i1 d1 i2 d2 i3 d3 show ?thesis by blast
qed

section \<open>Properties of the file name tests\<close>













section \<open>Properties of the orchestrator\<close>

lemma analyze_authorized:
  assumes "s_logged_in sess" and "s_user_id sess = Some uid"
  shows "analyze env sess (Some f) db =
     (case store_and_classify env uid (effective_filename (up_filename f))
             (or_empty (up_content_type f)) (up_bytes f) db of
        (Inl e, db1) \<Rightarrow> (rejection e, db1)
      | (Inr (file_id, p), db1) \<Rightarrow>
          evaluate_and_respond env sess uid file_id (effective_filename (up_filename f))
            (or_empty (up_content_type f)) p db1)"
  using assms by (simp add: analyze_def Let_def)

lemma store_and_classify_evaluations:
  "store_and_classify env uid filename ct b db = (r, db1) \<Longrightarrow> evaluations db1 = evaluations db"
  by (auto simp: store_and_classify_def fs_put_def split: sum.splits prod.splits)

lemma unsupported_extract:
  assumes "\<not> endswith (lower filename) ''.pdf''"
    and "\<not> endswith (lower filename) ''.docx''"
    and "\<not> endswith (lower filename) ''.txt''"
  shows "extract_text_from_file_bytes ps filename b = Inl UnsupportedFormat"
  using assms by (simp add: extract_text_from_file_bytes_def read_text_def)

text \<open>
  Claim C8. An upload that is not classified as an image and whose lowercased name
  ends in none of \<^verbatim>\<open>.pdf\<close>, \<^verbatim>\<open>.docx\<close>, \<^verbatim>\<open>.txt\<close> makes the extractor raise
  \<open>UnsupportedFormat\<close>. The route answers an authorized caller with status 400 and
  an error object, the collection of evaluations is left as it was, and when the
  original could be stored the error text is the extractor's
  "Unsupported document type. Please upload PDF, DOCX, or TXT.".
\<close>

theorem unsupported_format_rejected:
  assumes "\<not> is_image filename ct"
    and "\<not> endswith (lower filename) ''.pdf''"
    and "\<not> endswith (lower filename) ''.docx''"
    and "\<not> endswith (lower filename) ''.txt''"
    and "s_logged_in sess" and "s_user_id sess = Some uid"
    and "effective_filename (up_filename f) = filename"
    and "or_empty (up_content_type f) = ct"
  shows "extract_text_from_file_bytes ps filename b = Inl UnsupportedFormat
    \<and> (\<exists>msg. fst (analyze env sess (Some f) db) = Json 400 (error_dict msg))
    \<and> evaluations (snd (analyze env sess (Some f) db)) = evaluations db
    \<and> (\<forall>file_id. env_put env = Inr file_id \<longrightarrow>
          fst (analyze env sess (Some f) db) =
            Json 400 (error_dict ''Unsupported document type. Please upload PDF, DOCX, or TXT.''))"
proof -
  have x: "\<And>ps b. extract_text_from_file_bytes ps filename b = Inl UnsupportedFormat"
    using assms(2-4) by (rule unsupported_extract)
  have c: "classify (env_parsers env) filename ct (up_bytes f) = Inl UnsupportedFormat"
    using assms(1) by (simp add: classify_def x)
  have a: "analyze env sess (Some f) db =
     (case store_and_classify env uid filename ct (up_bytes f) db of
        (Inl e, db1) \<Rightarrow> (rejection e, db1)
      | (Inr (file_id, p), db1) \<Rightarrow>
          evaluate_and_respond env sess uid file_id filename ct p db1)"
    using analyze_authorized [OF assms(5,6), of env f db] by (simp only: assms(7,8))
  obtain e db1 where s: "store_and_classify env uid filename ct (up_bytes f) db = (Inl e, db1)"
    by (cases "env_put env") (auto simp: store_and_classify_def fs_put_def c)
  have r: "analyze env sess (Some f) db = (rejection e, db1)"
    by (simp add: a s)
  have m: "\<exists>msg. rejection e = (Json 400 (error_dict msg) :: 'a response)"
    by (cases e) (auto simp: rejection_def)
  have ev: "evaluations db1 = evaluations db"
    using s by (rule store_and_classify_evaluations)
  have u: "\<forall>file_id. env_put env = Inr file_id \<longrightarrow>
      fst (analyze env sess (Some f) db) =
        Json 400 (error_dict ''Unsupported document type. Please upload PDF, DOCX, or TXT.'')"
    by (auto simp: a store_and_classify_def fs_put_def c rejection_def UnsupportedFormat_def)
  from x m ev u show ?thesis by (simp add: r)
qed

theorem unsupported_format_rejected_witness:
  "\<not> is_image ''notes.xyz'' ''application/octet-stream''
   \<and> extract_text_from_file_bytes text_parsers ''notes.xyz'' [72, 105] = Inl UnsupportedFormat
   \<and> fst (analyze (example_env good_result) example_session (Some notes_xyz) empty_db) =
       Json 400 (error_dict ''Unsupported document type. Please upload PDF, DOCX, or TXT.'')
   \<and> evaluations (snd (analyze (example_env good_result) example_session (Some notes_xyz) empty_db))
       = []"
proof -
  have h1: "\<not> is_image ''notes.xyz'' ''application/octet-stream''"
    by code_simp
  have h2: "\<not> endswith (lower ''notes.xyz'') ''.pdf''"
    by code_simp
  have h3: "\<not> endswith (lower ''notes.xyz'') ''.docx''"
    by code_simp
  have h4: "\<not> endswith (lower ''notes.xyz'') ''.txt''"
    by code_simp
  have h5: "s_logged_in example_session"
    by (simp add: example_session_def)
  have h6: "s_user_id example_session = Some example_user_id"
    by (simp add: example_session_def)
  have h7: "effective_filename (up_filename notes_xyz) = ''notes.xyz''"
    by (simp add: notes_xyz_def effective_filename_def)
  have h8: "or_empty (up_content_type notes_xyz) = ''application/octet-stream''"
    by (simp add: notes_xyz_def)
  have p: "env_put (example_env good_result) = Inr example_file_id"
    by (simp add: example_env_def)
  have e: "evaluations empty_db = []"
    by (simp add: empty_db_def)
  note t = unsupported_format_rejected [OF h1 h2 h3 h4 h5 h6 h7 h8,
      of text_parsers "[72, 105]" "example_env good_result" empty_db]
  from t p e h1 show ?thesis by simp
qed

section \<open>Properties of the evaluator client\<close>

lemma evaluate_with_content:
  assumes "has_text txt \<or> img \<noteq> None"
  shows "evaluate_textbook_gemini (Some generate) txt img mime =
     (case generate (build_contents txt img mime) of
        Inl e \<Rightarrow> InvocationFailed e
      | Inr v \<Rightarrow> v)"
  using assms by (auto simp: evaluate_textbook_gemini_def)

lemma has_error_dict: "has_error (VDict d) = Some (dict_has d ''error'')"
  by (simp add: has_error_def)

lemma has_error_InvocationFailed: "has_error (InvocationFailed e) = Some True"
  by (simp add: has_error_def InvocationFailed_def error_dict_def dict_has_def)

lemma dict_get_missing: "\<not> dict_has d k \<Longrightarrow> dict_get d k dflt = dflt"
  by (simp add: dict_has_def dict_get_def)

text \<open>
  Claim C9. For an upload classified as an image the image argument of the request
  builder is the uploaded byte string itself, which is not \<^verbatim>\<open>None\<close> even when
  it is empty. With a configured client the \<open>NoContent\<close> test therefore does not
  fire: the evaluator is called with the prompt and the image part, and the result
  is what that call gives.
\<close>

theorem image_upload_reaches_evaluator:
  assumes "is_image filename ct"
  shows "classify ps filename ct b =
       Inr \<lparr>text_content = None, image_bytes = Some b,
            image_mime = Some (if startswith ct ''image/'' then ct else ''image/jpeg'')\<rparr>
    \<and> evaluate_textbook_gemini (Some generate) (Some (or_empty None)) (Some b)
         (Some (if startswith ct ''image/'' then ct else ''image/jpeg'')) =
       (case generate
               [Prompt, ImagePart b (if startswith ct ''image/'' then ct else ''image/jpeg'')] of
          Inl e \<Rightarrow> InvocationFailed e
        | Inr v \<Rightarrow> v)"
proof -
  have c: "classify ps filename ct b =
       Inr \<lparr>text_content = None, image_bytes = Some b,
            image_mime = Some (if startswith ct ''image/'' then ct else ''image/jpeg'')\<rparr>"
    using assms by (simp add: classify_def)
  have n: "startswith ct ''image/'' \<Longrightarrow> ct \<noteq> []"
    by (auto simp: startswith_def)
  have m: "mime_or_default (Some (if startswith ct ''image/'' then ct else ''image/jpeg'')) =
      (if startswith ct ''image/'' then ct else ''image/jpeg'')"
    using n by (simp add: mime_or_default_def)
  have bc: "build_contents (Some (or_empty None)) (Some b)
       (Some (if startswith ct ''image/'' then ct else ''image/jpeg'')) =
     [Prompt, ImagePart b (if startswith ct ''image/'' then ct else ''image/jpeg'')]"
    unfolding build_contents_def m by (simp add: has_text_def)
  have e: "evaluate_textbook_gemini (Some generate) (Some (or_empty None)) (Some b)
         (Some (if startswith ct ''image/'' then ct else ''image/jpeg'')) =
       (case generate
               [Prompt, ImagePart b (if startswith ct ''image/'' then ct else ''image/jpeg'')] of
          Inl e \<Rightarrow> InvocationFailed e
        | Inr v \<Rightarrow> v)"
    by (subst evaluate_with_content) (simp_all only: bc option.distinct simp_thms)
  from c e show ?thesis by blast
qed

lemma respond_accepts:
  assumes "env_client env = Some generate"
    and "has_text (Some (or_empty (text_content p))) \<or> image_bytes p \<noteq> None"
    and "generate (build_contents (Some (or_empty (text_content p))) (image_bytes p)
           (image_mime p)) = Inr (VDict d)"
    and "\<not> dict_has d ''error''"
  shows "evaluate_and_respond env sess uid file_id filename ct p db =
     (Json 200 (response_body d),
      save_evaluation env sess uid file_id filename ct p d db)"
proof -
  have e: "evaluate_textbook_gemini (env_client env) (Some (or_empty (text_content p)))
      (image_bytes p) (image_mime p) = VDict d"
    unfolding assms(1) evaluate_with_content [OF assms(2)] assms(3) by simp
  show ?thesis
    unfolding evaluate_and_respond_def e Let_def has_error_dict
    using assms(4) by simp
qed

lemma respond_failed:
  assumes "env_client env = Some generate"
    and "has_text (Some (or_empty (text_content p))) \<or> image_bytes p \<noteq> None"
    and "generate (build_contents (Some (or_empty (text_content p))) (image_bytes p)
           (image_mime p)) = Inl e"
  shows "evaluate_and_respond env sess uid file_id filename ct p db =
     (Json 500 (InvocationFailed e), db)"
proof -
  have e: "evaluate_textbook_gemini (env_client env) (Some (or_empty (text_content p)))
      (image_bytes p) (image_mime p) = InvocationFailed e"
    unfolding assms(1) evaluate_with_content [OF assms(2)] assms(3) by simp
  show ?thesis
    unfolding evaluate_and_respond_def e Let_def has_error_InvocationFailed
    by simp
qed

lemma analyze_empty_png:
  "analyze (example_env answer) example_session (Some empty_png) empty_db =
     evaluate_and_respond (example_env answer) example_session example_user_id example_file_id
       ''cover.png'' ''image/png''
       \<lparr>text_content = None, image_bytes = Some [], image_mime = Some ''image/png''\<rparr>
       \<lparr>files = [\<lparr>sf_id = example_file_id, sf_bytes = [], sf_filename = ''cover.png'',
                  sf_content_type = ''image/png'', sf_uploaded_at = 1000,
                  sf_user_id = example_user_id\<rparr>],
        evaluations = []\<rparr>"
proof -
  have i: "is_image ''cover.png'' ''image/png''"
    by code_simp
  have s: "startswith ''image/png'' ''image/''"
    by code_simp
  have l: "s_logged_in example_session" "s_user_id example_session = Some example_user_id"
    by (simp_all add: example_session_def)
  have f: "effective_filename (up_filename empty_png) = ''cover.png''"
    "or_empty (up_content_type empty_png) = ''image/png''" "up_bytes empty_png = []"
    by (simp_all add: empty_png_def effective_filename_def)
  have c: "classify text_parsers ''cover.png'' ''image/png'' [] =
      Inr \<lparr>text_content = None, image_bytes = Some [], image_mime = Some ''image/png''\<rparr>"
    using i s by (simp add: classify_def)
  have sc: "store_and_classify (example_env answer) example_user_id ''cover.png'' ''image/png'' []
      empty_db =
     (Inr (example_file_id,
        \<lparr>text_content = None, image_bytes = Some [], image_mime = Some ''image/png''\<rparr>),
      \<lparr>files = [\<lparr>sf_id = example_file_id, sf_bytes = [], sf_filename = ''cover.png'',
                 sf_content_type = ''image/png'', sf_uploaded_at = 1000,
                 sf_user_id = example_user_id\<rparr>],
       evaluations = []\<rparr>)"
    by (simp add: store_and_classify_def fs_put_def example_env_def empty_db_def c)
  show ?thesis
    unfolding analyze_authorized [OF l] f sc by simp
qed

theorem image_upload_reaches_evaluator_witness:
  "is_image ''cover.png'' ''image/png''
   \<and> classify text_parsers ''cover.png'' ''image/png'' [] =
       Inr \<lparr>text_content = None, image_bytes = Some [], image_mime = Some ''image/png''\<rparr>
   \<and> evaluate_textbook_gemini (Some (\<lambda>contents. Inr (VDict good_result))) (Some []) (Some [])
        (Some ''image/png'') = VDict good_result
   \<and> fst (analyze (example_env good_result) example_session (Some empty_png) empty_db) =
       Json 200 (response_body good_result)"
proof -
  have i: "is_image ''cover.png'' ''image/png''"
    by code_simp
  have s: "startswith ''image/png'' ''image/''"
    by code_simp
  note t = image_upload_reaches_evaluator [OF i, of text_parsers "[]"
      "\<lambda>contents. Inr (VDict good_result)"]
  have c: "classify text_parsers ''cover.png'' ''image/png'' [] =
      Inr \<lparr>text_content = None, image_bytes = Some [], image_mime = Some ''image/png''\<rparr>"
    using t s by simp
  have e: "evaluate_textbook_gemini (Some (\<lambda>contents. Inr (VDict good_result))) (Some [])
      (Some []) (Some ''image/png'') = VDict good_result"
    using t s by simp
  have ne: "\<not> dict_has good_result ''error''"
    by code_simp
  have a: "fst (analyze (example_env good_result) example_session (Some empty_png) empty_db) =
      Json 200 (response_body good_result)"
    unfolding analyze_empty_png
    by (subst respond_accepts [where generate = "\<lambda>contents. Inr (VDict good_result)"
          and d = good_result])
      (simp_all add: example_env_def ne)
  from i c e a show ?thesis by blast
qed

lemma analyze_notes_txt:
  "analyze (example_env answer) example_session (Some notes_txt) empty_db =
     evaluate_and_respond (example_env answer) example_session example_user_id example_file_id
       ''notes.txt'' ''text/plain''
       \<lparr>text_content = Some ''Chapter 1'', image_bytes = None, image_mime = None\<rparr>
       \<lparr>files = [\<lparr>sf_id = example_file_id, sf_bytes = [72, 105], sf_filename = ''notes.txt'',
                  sf_content_type = ''text/plain'', sf_uploaded_at = 1000,
                  sf_user_id = example_user_id\<rparr>],
        evaluations = []\<rparr>"
proof -
  have i: "\<not> is_image ''notes.txt'' ''text/plain''"
    by code_simp
  have r: "read_text text_parsers ''notes.txt'' [72, 105] = Inr ''Chapter 1''"
    by code_simp
  have n: "strip ''Chapter 1'' \<noteq> []"
    by code_simp
  have x: "extract_text_from_file_bytes text_parsers ''notes.txt'' [72, 105] = Inr ''Chapter 1''"
    using n by (simp add: extract_text_from_file_bytes_def r limit_text_short)
  have l: "s_logged_in example_session" "s_user_id example_session = Some example_user_id"
    by (simp_all add: example_session_def)
  have f: "effective_filename (up_filename notes_txt) = ''notes.txt''"
    "or_empty (up_content_type notes_txt) = ''text/plain''" "up_bytes notes_txt = [72, 105]"
    by (simp_all add: notes_txt_def effective_filename_def)
  have c: "classify text_parsers ''notes.txt'' ''text/plain'' [72, 105] =
      Inr \<lparr>text_content = Some ''Chapter 1'', image_bytes = None, image_mime = None\<rparr>"
    using i by (simp add: classify_def x)
  have sc: "store_and_classify (example_env answer) example_user_id ''notes.txt'' ''text/plain''
      [72, 105] empty_db =
     (Inr (example_file_id,
        \<lparr>text_content = Some ''Chapter 1'', image_bytes = None, image_mime = None\<rparr>),
      \<lparr>files = [\<lparr>sf_id = example_file_id, sf_bytes = [72, 105], sf_filename = ''notes.txt'',
                 sf_content_type = ''text/plain'', sf_uploaded_at = 1000,
                 sf_user_id = example_user_id\<rparr>],
       evaluations = []\<rparr>)"
    by (simp add: store_and_classify_def fs_put_def example_env_def empty_db_def c)
  show ?thesis
    unfolding analyze_authorized [OF l] f sc by simp
qed

lemma notes_has_text: "has_text (Some ''Chapter 1'')"
  by code_simp

lemma example_user_id_valid: "example_ObjectId example_user_id = Inr example_user_id"
  by code_simp

lemma respond_notes_txt:
  assumes "\<not> dict_has answer ''error''"
  shows "evaluate_and_respond (example_env answer) example_session example_user_id example_file_id
       ''notes.txt'' ''text/plain''
       \<lparr>text_content = Some ''Chapter 1'', image_bytes = None, image_mime = None\<rparr> db =
     (Json 200 (response_body answer),
      db\<lparr>evaluations := evaluations db @
        [eval_doc (example_env answer) example_session example_user_id example_file_id ''notes.txt''
           ''text/plain''
           \<lparr>text_content = Some ''Chapter 1'', image_bytes = None, image_mime = None\<rparr>
           answer]\<rparr>)"
proof -
  have s: "save_evaluation (example_env answer) example_session example_user_id example_file_id
       ''notes.txt'' ''text/plain''
       \<lparr>text_content = Some ''Chapter 1'', image_bytes = None, image_mime = None\<rparr> answer db =
     db\<lparr>evaluations := evaluations db @
        [eval_doc (example_env answer) example_session example_user_id example_file_id ''notes.txt''
           ''text/plain''
           \<lparr>text_content = Some ''Chapter 1'', image_bytes = None, image_mime = None\<rparr>
           answer]\<rparr>"
    by (simp add: save_evaluation_def example_env_def example_user_id_valid)
  show ?thesis
    by (subst respond_accepts [where generate = "\<lambda>contents. Inr (VDict answer)"
          and d = answer])
      (simp_all add: example_env_def assms notes_has_text s [unfolded example_env_def])
qed

lemma response_body_explicit:
  "response_body d =
     VDict
      [(''accuracy_score'', dict_get d ''accuracy_score'' VNone),
       (''accuracy'', dict_get d ''accuracy'' (VStr ''AI analysis unavailable.'')),
       (''readability_score'', dict_get d ''readability_score'' VNone),
       (''readability'', dict_get d ''readability'' (VStr ''AI analysis unavailable.'')),
       (''consistency_score'', dict_get d ''consistency_score'' VNone),
       (''consistency'', dict_get d ''consistency'' (VStr ''AI analysis unavailable.'')),
       (''overall_rating'', dict_get d ''overall_rating'' (VStr ''AI analysis unavailable.'')),
       (''summary'', dict_get d ''summary'' (VStr ''AI analysis unavailable.''))]"
  by (simp add: response_body_def unavailable_def)

lemma eval_doc_answer_fields:
  "map_of (eval_doc env sess oid file_id filename ct p d) ''accuracy_score'' =
     Some (dict_get d ''accuracy_score'' VNone)"
  "map_of (eval_doc env sess oid file_id filename ct p d) ''readability_score'' =
     Some (dict_get d ''readability_score'' VNone)"
  "map_of (eval_doc env sess oid file_id filename ct p d) ''consistency_score'' =
     Some (dict_get d ''consistency_score'' VNone)"
  "map_of (eval_doc env sess oid file_id filename ct p d) ''accuracy_text'' =
     Some (dict_get d ''accuracy'' (VStr []))"
  "map_of (eval_doc env sess oid file_id filename ct p d) ''readability_text'' =
     Some (dict_get d ''readability'' (VStr []))"
  "map_of (eval_doc env sess oid file_id filename ct p d) ''consistency_text'' =
     Some (dict_get d ''consistency'' (VStr []))"
  "map_of (eval_doc env sess oid file_id filename ct p d) ''overall_rating_value'' =
     Some (dict_get d ''overall_rating'' VNone)"
  "map_of (eval_doc env sess oid file_id filename ct p d) ''overall_rating'' =
     Some (VStr (overall_str (env_lib env) d))"
  "map_of (eval_doc env sess oid file_id filename ct p d) ''summary'' =
     Some (dict_get d ''summary'' (VStr []))"
  "map_of (eval_doc env sess oid file_id filename ct p d) ''raw_evaluation'' = Some (VDict d)"
  by (simp_all add: eval_doc_def)

lemma save_evaluation_cases:
  "save_evaluation env sess uid file_id filename ct p d db =
     (case env_ObjectId env uid of
        Inl e \<Rightarrow> db
      | Inr oid \<Rightarrow>
          (case env_insert_raises env of
             Some e \<Rightarrow> db
           | None \<Rightarrow>
               db\<lparr>evaluations := evaluations db @
                 [eval_doc env sess oid file_id filename ct p d]\<rparr>))"
  by (simp add: save_evaluation_def)

lemma dict_get_present: "map_of d k = Some v \<Longrightarrow> dict_get d k dflt = v"
  by (simp add: dict_get_def)

text \<open>
  Claim C1, as the code has it. The client does not check the parsed answer against
  the schema. With a configured client and something to evaluate, the result of
  \<open>evaluate_textbook_gemini\<close> is \<open>InvocationFailed\<close> exactly as the call or the
  JSON parsing raises, and is the parsed value otherwise. A parsed dictionary
  without the key \<^verbatim>\<open>error\<close> is accepted whatever fields it lacks: the route
  answers 200 with the eight fields, where a missing score is \<^verbatim>\<open>None\<close> and a
  missing narrative, overall rating or summary is "AI analysis unavailable."; then
  the save step runs. It appends one document when the user id makes an
  \<^verbatim>\<open>ObjectId\<close> and the insert does not raise, and leaves the store as it was
  otherwise. In the document a missing score or rating value is \<^verbatim>\<open>None\<close> and a
  missing narrative or summary is the empty string. When the call raises, the
  route answers 500 and saves nothing.
\<close>

theorem incomplete_answer_is_accepted:
  assumes "env_client env = Some generate"
    and "has_text (Some (or_empty (text_content p))) \<or> image_bytes p \<noteq> None"
  shows "evaluate_textbook_gemini (env_client env) (Some (or_empty (text_content p)))
         (image_bytes p) (image_mime p) =
       (case generate (build_contents (Some (or_empty (text_content p))) (image_bytes p)
               (image_mime p)) of
          Inl e \<Rightarrow> InvocationFailed e
        | Inr v \<Rightarrow> v)
    \<and> (\<forall>d. generate (build_contents (Some (or_empty (text_content p))) (image_bytes p)
               (image_mime p)) = Inr (VDict d) \<and> \<not> dict_has d ''error'' \<longrightarrow>
          evaluate_and_respond env sess uid file_id filename ct p db =
            (Json 200
              (VDict
                [(''accuracy_score'', dict_get d ''accuracy_score'' VNone),
                 (''accuracy'', dict_get d ''accuracy'' (VStr ''AI analysis unavailable.'')),
                 (''readability_score'', dict_get d ''readability_score'' VNone),
                 (''readability'', dict_get d ''readability'' (VStr ''AI analysis unavailable.'')),
                 (''consistency_score'', dict_get d ''consistency_score'' VNone),
                 (''consistency'', dict_get d ''consistency'' (VStr ''AI analysis unavailable.'')),
                 (''overall_rating'',
                    dict_get d ''overall_rating'' (VStr ''AI analysis unavailable.'')),
                 (''summary'', dict_get d ''summary'' (VStr ''AI analysis unavailable.''))]),
             save_evaluation env sess uid file_id filename ct p d db))
    \<and> (\<forall>e. generate (build_contents (Some (or_empty (text_content p))) (image_bytes p)
               (image_mime p)) = Inl e \<longrightarrow>
          evaluate_and_respond env sess uid file_id filename ct p db =
            (Json 500 (InvocationFailed e), db))
    \<and> (\<forall>d oid. env_ObjectId env uid = Inr oid \<and> env_insert_raises env = None \<longrightarrow>
          save_evaluation env sess uid file_id filename ct p d db =
            db\<lparr>evaluations := evaluations db @
              [eval_doc env sess oid file_id filename ct p d]\<rparr>)
    \<and> (\<forall>d. (\<exists>e. env_ObjectId env uid = Inl e) \<or> (\<exists>e. env_insert_raises env = Some e) \<longrightarrow>
          save_evaluation env sess uid file_id filename ct p d db = db)
    \<and> (\<forall>d oid.
          map_of (eval_doc env sess oid file_id filename ct p d) ''accuracy_score'' =
            Some (dict_get d ''accuracy_score'' VNone)
        \<and> map_of (eval_doc env sess oid file_id filename ct p d) ''readability_score'' =
            Some (dict_get d ''readability_score'' VNone)
        \<and> map_of (eval_doc env sess oid file_id filename ct p d) ''consistency_score'' =
            Some (dict_get d ''consistency_score'' VNone)
        \<and> map_of (eval_doc env sess oid file_id filename ct p d) ''accuracy_text'' =
            Some (dict_get d ''accuracy'' (VStr []))
        \<and> map_of (eval_doc env sess oid file_id filename ct p d) ''readability_text'' =
            Some (dict_get d ''readability'' (VStr []))
        \<and> map_of (eval_doc env sess oid file_id filename ct p d) ''consistency_text'' =
            Some (dict_get d ''consistency'' (VStr []))
        \<and> map_of (eval_doc env sess oid file_id filename ct p d) ''overall_rating_value'' =
            Some (dict_get d ''overall_rating'' VNone)
        \<and> map_of (eval_doc env sess oid file_id filename ct p d) ''summary'' =
            Some (dict_get d ''summary'' (VStr []))
        \<and> map_of (eval_doc env sess oid file_id filename ct p d) ''raw_evaluation'' =
            Some (VDict d))
    \<and> (\<forall>d k dflt. \<not> dict_has d k \<longrightarrow> dict_get d k dflt = (dflt :: 'a pyval))
    \<and> (\<forall>d k v dflt. map_of d k = Some v \<longrightarrow> dict_get d k dflt = (v :: 'a pyval))"
proof -
  have a: "evaluate_textbook_gemini (env_client env) (Some (or_empty (text_content p)))
         (image_bytes p) (image_mime p) =
       (case generate (build_contents (Some (or_empty (text_content p))) (image_bytes p)
               (image_mime p)) of
          Inl e \<Rightarrow> InvocationFailed e
        | Inr v \<Rightarrow> v)"
    unfolding assms(1) by (rule evaluate_with_content) (rule assms(2))
  have b: "\<forall>d. generate (build_contents (Some (or_empty (text_content p))) (image_bytes p)
               (image_mime p)) = Inr (VDict d) \<and> \<not> dict_has d ''error'' \<longrightarrow>
          evaluate_and_respond env sess uid file_id filename ct p db =
            (Json 200
              (VDict
                [(''accuracy_score'', dict_get d ''accuracy_score'' VNone),
                 (''accuracy'', dict_get d ''accuracy'' (VStr ''AI analysis unavailable.'')),
                 (''readability_score'', dict_get d ''readability_score'' VNone),
                 (''readability'', dict_get d ''readability'' (VStr ''AI analysis unavailable.'')),
                 (''consistency_score'', dict_get d ''consistency_score'' VNone),
                 (''consistency'', dict_get d ''consistency'' (VStr ''AI analysis unavailable.'')),
                 (''overall_rating'',
                    dict_get d ''overall_rating'' (VStr ''AI analysis unavailable.'')),
                 (''summary'', dict_get d ''summary'' (VStr ''AI analysis unavailable.''))]),
             save_evaluation env sess uid file_id filename ct p d db)"
    using respond_accepts [OF assms] unfolding response_body_explicit by blast
  have c: "\<forall>e. generate (build_contents (Some (or_empty (text_content p))) (image_bytes p)
               (image_mime p)) = Inl e \<longrightarrow>
          evaluate_and_respond env sess uid file_id filename ct p db =
            (Json 500 (InvocationFailed e), db)"
    using respond_failed [OF assms] by blast
  have d1: "\<forall>d oid. env_ObjectId env uid = Inr oid \<and> env_insert_raises env = None \<longrightarrow>
          save_evaluation env sess uid file_id filename ct p d db =
            db\<lparr>evaluations := evaluations db @
              [eval_doc env sess oid file_id filename ct p d]\<rparr>"
    by (simp add: save_evaluation_cases)
  have d2: "\<forall>d. (\<exists>e. env_ObjectId env uid = Inl e) \<or> (\<exists>e. env_insert_raises env = Some e) \<longrightarrow>
          save_evaluation env sess uid file_id filename ct p d db = db"
    by (auto simp: save_evaluation_cases split: sum.splits)
  note e = eval_doc_answer_fields [of env sess _ file_id filename ct p]
  have f: "\<forall>d k dflt. \<not> dict_has d k \<longrightarrow> dict_get d k dflt = (dflt :: 'a pyval)"
    by (simp add: dict_get_missing)
  have g: "\<forall>d k v dflt. map_of d k = Some v \<longrightarrow> dict_get d k dflt = (v :: 'a pyval)"
    by (simp add: dict_get_present)
  show ?thesis
    apply (intro conjI allI)
    using a b c d1 d2 f g by (simp_all only: e) blast+
qed

lemma response_body_no_summary:
  "response_body no_summary_result =
     VDict
      [(''accuracy_score'', VInt 90), (''accuracy'', VStr ''ok''),
       (''readability_score'', VInt 80), (''readability'', VStr ''ok''),
       (''consistency_score'', VInt 85), (''consistency'', VStr ''ok''),
       (''overall_rating'', VFloat (Decimal 42 1)),
       (''summary'', VStr ''AI analysis unavailable.'')]"
  by (simp add: response_body_def no_summary_result_def dict_get_def unavailable_def)

lemma response_body_good:
  "response_body good_result =
     VDict
      [(''accuracy_score'', VInt 90), (''accuracy'', VStr ''ok''),
       (''readability_score'', VInt 80), (''readability'', VStr ''ok''),
       (''consistency_score'', VInt 85), (''consistency'', VStr ''ok''),
       (''overall_rating'', VFloat (Decimal 42 1)),
       (''summary'', VStr ''Good.'')]"
  by (simp add: response_body_def good_result_def dict_get_def unavailable_def)

lemma no_summary_keys:
  "\<not> dict_has no_summary_result ''error''" "\<not> dict_has no_summary_result ''summary''"
  by (simp_all add: dict_has_def no_summary_result_def)

lemma good_keys: "\<not> dict_has good_result ''error''"
  by (simp add: dict_has_def good_result_def)

theorem incomplete_answer_is_accepted_witness:
  "evaluate_textbook_gemini (env_client (example_env no_summary_result))
       (Some ''Chapter 1'') None None = VDict no_summary_result
   \<and> evaluate_and_respond (example_env no_summary_result) example_session example_user_id
          example_file_id ''notes.txt'' ''text/plain''
          \<lparr>text_content = Some ''Chapter 1'', image_bytes = None, image_mime = None\<rparr>
          empty_db =
       (Json 200
         (VDict
           [(''accuracy_score'', VInt 90), (''accuracy'', VStr ''ok''),
            (''readability_score'', VInt 80), (''readability'', VStr ''ok''),
            (''consistency_score'', VInt 85), (''consistency'', VStr ''ok''),
            (''overall_rating'', VFloat (Decimal 42 1)),
            (''summary'', VStr ''AI analysis unavailable.'')]),
        \<lparr>files = [],
         evaluations =
          [eval_doc (example_env no_summary_result) example_session example_user_id
             example_file_id ''notes.txt'' ''text/plain''
             \<lparr>text_content = Some ''Chapter 1'', image_bytes = None, image_mime = None\<rparr>
             no_summary_result]\<rparr>)
   \<and> map_of (eval_doc (example_env no_summary_result) example_session example_user_id
          example_file_id ''notes.txt'' ''text/plain''
          \<lparr>text_content = Some ''Chapter 1'', image_bytes = None, image_mime = None\<rparr>
          no_summary_result) ''summary'' = Some (VStr [])"
proof -
  let ?p = "\<lparr>text_content = Some ''Chapter 1'', image_bytes = None, image_mime = None\<rparr>"
  let ?env = "example_env no_summary_result"
  have c: "env_client ?env = Some (\<lambda>contents. Inr (VDict no_summary_result))"
    by (simp add: example_env_def)
  have h: "has_text (Some (or_empty (text_content ?p))) \<or> image_bytes ?p \<noteq> None"
    by (simp add: notes_has_text)
  note t = incomplete_answer_is_accepted [OF c h, of example_session example_user_id
      example_file_id "''notes.txt''" "''text/plain''" empty_db]
  have e: "evaluate_textbook_gemini (env_client ?env) (Some ''Chapter 1'') None None =
      VDict no_summary_result"
    using conjunct1 [OF t] by simp
  have o: "env_ObjectId ?env example_user_id = Inr example_user_id"
    "env_insert_raises ?env = None"
    by (simp_all add: example_env_def example_user_id_valid)
  have s: "save_evaluation ?env example_session example_user_id example_file_id ''notes.txt''
      ''text/plain'' ?p no_summary_result empty_db =
     empty_db\<lparr>evaluations := evaluations empty_db @
       [eval_doc ?env example_session example_user_id example_file_id ''notes.txt''
          ''text/plain'' ?p no_summary_result]\<rparr>"
    using t o by blast
  have r: "evaluate_and_respond ?env example_session example_user_id example_file_id
      ''notes.txt'' ''text/plain'' ?p empty_db =
     (Json 200
       (VDict
         [(''accuracy_score'', dict_get no_summary_result ''accuracy_score'' VNone),
          (''accuracy'', dict_get no_summary_result ''accuracy'' (VStr ''AI analysis unavailable.'')),
          (''readability_score'', dict_get no_summary_result ''readability_score'' VNone),
          (''readability'',
             dict_get no_summary_result ''readability'' (VStr ''AI analysis unavailable.'')),
          (''consistency_score'', dict_get no_summary_result ''consistency_score'' VNone),
          (''consistency'',
             dict_get no_summary_result ''consistency'' (VStr ''AI analysis unavailable.'')),
          (''overall_rating'',
             dict_get no_summary_result ''overall_rating'' (VStr ''AI analysis unavailable.'')),
          (''summary'',
             dict_get no_summary_result ''summary'' (VStr ''AI analysis unavailable.''))]),
      save_evaluation ?env example_session example_user_id example_file_id ''notes.txt''
        ''text/plain'' ?p no_summary_result empty_db)"
    using t no_summary_keys(1) by (elim conjE allE [where x = no_summary_result]) simp
  have r': "evaluate_and_respond ?env example_session example_user_id example_file_id
      ''notes.txt'' ''text/plain'' ?p empty_db =
     (Json 200
       (VDict
         [(''accuracy_score'', VInt 90), (''accuracy'', VStr ''ok''),
          (''readability_score'', VInt 80), (''readability'', VStr ''ok''),
          (''consistency_score'', VInt 85), (''consistency'', VStr ''ok''),
          (''overall_rating'', VFloat (Decimal 42 1)),
          (''summary'', VStr ''AI analysis unavailable.'')]),
      \<lparr>files = [],
       evaluations =
        [eval_doc ?env example_session example_user_id example_file_id ''notes.txt''
           ''text/plain'' ?p no_summary_result]\<rparr>)"
    unfolding r s
    by (simp add: empty_db_def dict_get_def no_summary_result_def)
  have g0: "map_of (eval_doc ?env example_session example_user_id example_file_id
      ''notes.txt'' ''text/plain'' ?p no_summary_result) ''summary'' =
      Some (dict_get no_summary_result ''summary'' (VStr []))"
    using t by blast
  have g1: "dict_get no_summary_result ''summary'' (VStr []) = (VStr [] :: decimal pyval)"
    using t no_summary_keys(2) by blast
  have g: "map_of (eval_doc ?env example_session example_user_id example_file_id
      ''notes.txt'' ''text/plain'' ?p no_summary_result) ''summary'' = Some (VStr [])"
    unfolding g0 g1 by (rule refl)
  from e r' g show ?thesis by blast
qed

text \<open>
  Claim C1 as stated fails. A logged-in user with a valid id uploads
  \<^verbatim>\<open>notes.txt\<close> and the evaluator answers with the example's JSON object
  without its \<^verbatim>\<open>summary\<close>: the client returns that object, which is no error
  result, the route answers 200 with "AI analysis unavailable." as the summary,
  and one document, with the empty string as its summary, is appended to the
  evaluations.
\<close>

theorem missing_summary_is_not_rejected_counterexample:
  "\<not> dict_has no_summary_result ''summary''
   \<and> evaluate_textbook_gemini (env_client (example_env no_summary_result))
        (Some ''Chapter 1'') None None = VDict no_summary_result
   \<and> has_error (VDict no_summary_result) = Some False
   \<and> fst (analyze (example_env no_summary_result) example_session (Some notes_txt) empty_db) =
       Json 200
        (VDict
          [(''accuracy_score'', VInt 90), (''accuracy'', VStr ''ok''),
           (''readability_score'', VInt 80), (''readability'', VStr ''ok''),
           (''consistency_score'', VInt 85), (''consistency'', VStr ''ok''),
           (''overall_rating'', VFloat (Decimal 42 1)),
           (''summary'', VStr ''AI analysis unavailable.'')])
   \<and> evaluations (snd (analyze (example_env no_summary_result) example_session
        (Some notes_txt) empty_db)) =
       [eval_doc (example_env no_summary_result) example_session example_user_id
          example_file_id ''notes.txt'' ''text/plain''
          \<lparr>text_content = Some ''Chapter 1'', image_bytes = None, image_mime = None\<rparr>
          no_summary_result]
   \<and> map_of (eval_doc (example_env no_summary_result) example_session example_user_id
          example_file_id ''notes.txt'' ''text/plain''
          \<lparr>text_content = Some ''Chapter 1'', image_bytes = None, image_mime = None\<rparr>
          no_summary_result) ''summary'' = Some (VStr [])"
proof -
  have e: "evaluate_textbook_gemini (env_client (example_env no_summary_result))
        (Some ''Chapter 1'') None None = VDict no_summary_result"
    by (simp add: example_env_def evaluate_with_content notes_has_text)
  have h: "has_error (VDict no_summary_result) = Some False"
    by (simp add: has_error_dict no_summary_keys)
  have a: "analyze (example_env no_summary_result) example_session (Some notes_txt) empty_db =
     (Json 200 (response_body no_summary_result),
      \<lparr>files = [\<lparr>sf_id = example_file_id, sf_bytes = [72, 105], sf_filename = ''notes.txt'',
                 sf_content_type = ''text/plain'', sf_uploaded_at = 1000,
                 sf_user_id = example_user_id\<rparr>],
       evaluations =
        [eval_doc (example_env no_summary_result) example_session example_user_id
           example_file_id ''notes.txt'' ''text/plain''
           \<lparr>text_content = Some ''Chapter 1'', image_bytes = None, image_mime = None\<rparr>
           no_summary_result]\<rparr>)"
    unfolding analyze_notes_txt
    by (simp add: respond_notes_txt [OF no_summary_keys(1)])
  have f: "fst (analyze (example_env no_summary_result) example_session (Some notes_txt)
      empty_db) =
       Json 200
        (VDict
          [(''accuracy_score'', VInt 90), (''accuracy'', VStr ''ok''),
           (''readability_score'', VInt 80), (''readability'', VStr ''ok''),
           (''consistency_score'', VInt 85), (''consistency'', VStr ''ok''),
           (''overall_rating'', VFloat (Decimal 42 1)),
           (''summary'', VStr ''AI analysis unavailable.'')])"
    unfolding a fst_conv response_body_no_summary by (rule refl)
  have n: "evaluations (snd (analyze (example_env no_summary_result) example_session
        (Some notes_txt) empty_db)) =
       [eval_doc (example_env no_summary_result) example_session example_user_id
          example_file_id ''notes.txt'' ''text/plain''
          \<lparr>text_content = Some ''Chapter 1'', image_bytes = None, image_mime = None\<rparr>
          no_summary_result]"
    unfolding a snd_conv by simp
  have g: "map_of (eval_doc (example_env no_summary_result) example_session example_user_id
          example_file_id ''notes.txt'' ''text/plain''
          \<lparr>text_content = Some ''Chapter 1'', image_bytes = None, image_mime = None\<rparr>
          no_summary_result) ''summary'' = Some (VStr [])"
    by (simp only: eval_doc_answer_fields dict_get_missing [OF no_summary_keys(2)])
  from no_summary_keys(2) e h f n g show ?thesis by blast
qed

section \<open>Properties of the rating display and of the save step\<close>

lemma overall_str_cases:
  "overall_str lib d =
     (case map_of d ''overall_rating'' of
        None \<Rightarrow> ''No rating''
      | Some v \<Rightarrow>
          if is_int_or_float v then py_str lib v @ ''/5''
          else if v \<noteq> VNone then py_str lib v
          else ''No rating'')"
  by (simp add: overall_str_def dict_get_def is_int_or_float_def split: option.splits)

lemma eval_doc_overall:
  "map_of (eval_doc env sess oid file_id filename ct p d) ''overall_rating'' =
     Some (VStr (overall_str (env_lib env) d))"
  "map_of (eval_doc env sess oid file_id filename ct p d) ''overall_rating_value'' =
     Some (dict_get d ''overall_rating'' VNone)"
  by (simp_all add: eval_doc_def)

lemma response_body_fields:
  "\<exists>fields. response_body d = VDict fields
     \<and> map fst fields =
         [''accuracy_score'', ''accuracy'', ''readability_score'', ''readability'',
          ''consistency_score'', ''consistency'', ''overall_rating'', ''summary'']
     \<and> map_of fields ''overall_rating'' =
         Some (dict_get d ''overall_rating'' (VStr ''AI analysis unavailable.''))"
  by (simp add: response_body_def unavailable_def)

lemma analyze_notes_txt_good:
  "analyze (example_env good_result) example_session (Some notes_txt) empty_db =
     (Json 200 (response_body good_result),
      \<lparr>files = [\<lparr>sf_id = example_file_id, sf_bytes = [72, 105], sf_filename = ''notes.txt'',
                 sf_content_type = ''text/plain'', sf_uploaded_at = 1000,
                 sf_user_id = example_user_id\<rparr>],
       evaluations =
        [eval_doc (example_env good_result) example_session example_user_id example_file_id
           ''notes.txt'' ''text/plain''
           \<lparr>text_content = Some ''Chapter 1'', image_bytes = None, image_mime = None\<rparr>
           good_result]\<rparr>)"
  unfolding analyze_notes_txt
  by (simp add: respond_notes_txt [OF good_keys])

text \<open>
  Claim C6, as the code has it. The display string is the value's string form
  followed by \<^verbatim>\<open>/5\<close> when \<^verbatim>\<open>overall_rating\<close> is an int or a float (as which
  Python also counts a boolean), else the value's string form when the value is
  present and not \<^verbatim>\<open>None\<close>, else \<^verbatim>\<open>No rating\<close>. It is stored in the document
  handed to the store under \<^verbatim>\<open>overall_rating\<close>, next to the value itself under
  \<^verbatim>\<open>overall_rating_value\<close>. The response of the route has the eight schema
  fields and carries the value itself under \<^verbatim>\<open>overall_rating\<close>, not the display
  string. For the rating 4.2, whose string form is \<^verbatim>\<open>4.2\<close>, the document holds
  \<^verbatim>\<open>4.2/5\<close> and 4.2, and the response holds 4.2.
\<close>

theorem overall_rating_display:
  "overall_str lib d =
     (case map_of d ''overall_rating'' of
        None \<Rightarrow> ''No rating''
      | Some v \<Rightarrow>
          if is_int_or_float v then py_str lib v @ ''/5''
          else if v \<noteq> VNone then py_str lib v
          else ''No rating'')
   \<and> (\<forall>x. map_of d ''overall_rating'' = Some (VFloat x) \<longrightarrow>
          overall_str lib d = lib_str lib (VFloat x) @ ''/5'')
   \<and> (\<forall>i. map_of d ''overall_rating'' = Some (VInt i) \<longrightarrow>
          overall_str lib d = str_int i @ ''/5'')
   \<and> (\<forall>b. map_of d ''overall_rating'' = Some (VBool b) \<longrightarrow>
          overall_str lib d = (if b then ''True'' else ''False'') @ ''/5'')
   \<and> (\<forall>s. map_of d ''overall_rating'' = Some (VStr s) \<longrightarrow> overall_str lib d = s)
   \<and> (map_of d ''overall_rating'' = Some VNone \<longrightarrow> overall_str lib d = ''No rating'')
   \<and> (map_of d ''overall_rating'' = None \<longrightarrow> overall_str lib d = ''No rating'')
   \<and> map_of (eval_doc env sess oid file_id filename ct p d) ''overall_rating'' =
       Some (VStr (overall_str (env_lib env) d))
   \<and> map_of (eval_doc env sess oid file_id filename ct p d) ''overall_rating_value'' =
       Some (dict_get d ''overall_rating'' VNone)
   \<and> (\<exists>fields. response_body d = VDict fields
        \<and> map fst fields =
            [''accuracy_score'', ''accuracy'', ''readability_score'', ''readability'',
             ''consistency_score'', ''consistency'', ''overall_rating'', ''summary'']
        \<and> map_of fields ''overall_rating'' =
            Some (dict_get d ''overall_rating'' (VStr ''AI analysis unavailable.'')))"
proof -
  note a = overall_str_cases [of lib d]
  have b: "\<forall>x. map_of d ''overall_rating'' = Some (VFloat x) \<longrightarrow>
          overall_str lib d = lib_str lib (VFloat x) @ ''/5''"
    by (simp add: a is_int_or_float_def py_str_def)
  have c: "\<forall>i. map_of d ''overall_rating'' = Some (VInt i) \<longrightarrow>
          overall_str lib d = str_int i @ ''/5''"
    by (simp add: a is_int_or_float_def py_str_def)
  have c': "\<forall>b. map_of d ''overall_rating'' = Some (VBool b) \<longrightarrow>
          overall_str lib d = (if b then ''True'' else ''False'') @ ''/5''"
    by (simp add: a is_int_or_float_def py_str_def)
  have e: "\<forall>s. map_of d ''overall_rating'' = Some (VStr s) \<longrightarrow> overall_str lib d = s"
    by (simp add: a is_int_or_float_def py_str_def)
  have n1: "map_of d ''overall_rating'' = Some VNone \<longrightarrow> overall_str lib d = ''No rating''"
    by (simp add: a is_int_or_float_def)
  have n2: "map_of d ''overall_rating'' = None \<longrightarrow> overall_str lib d = ''No rating''"
    by (simp add: a)
  note f = eval_doc_overall [of env sess oid file_id filename ct p d]
  note g = response_body_fields [of d]
  from a b c c' e n1 n2 f g show ?thesis by blast
qed

theorem overall_rating_display_witness:
  "overall_str example_lib good_result = ''4.2/5''
   \<and> evaluations (snd (analyze (example_env good_result) example_session (Some notes_txt)
        empty_db)) =
       [eval_doc (example_env good_result) example_session example_user_id example_file_id
          ''notes.txt'' ''text/plain''
          \<lparr>text_content = Some ''Chapter 1'', image_bytes = None, image_mime = None\<rparr>
          good_result]
   \<and> map_of (eval_doc (example_env good_result) example_session example_user_id
        example_file_id ''notes.txt'' ''text/plain''
        \<lparr>text_content = Some ''Chapter 1'', image_bytes = None, image_mime = None\<rparr>
        good_result) ''overall_rating'' = Some (VStr ''4.2/5'')
   \<and> map_of (eval_doc (example_env good_result) example_session example_user_id
        example_file_id ''notes.txt'' ''text/plain''
        \<lparr>text_content = Some ''Chapter 1'', image_bytes = None, image_mime = None\<rparr>
        good_result) ''overall_rating_value'' = Some (VFloat (Decimal 42 1))"
proof -
  let ?p = "\<lparr>text_content = Some ''Chapter 1'', image_bytes = None, image_mime = None\<rparr>"
  note t = overall_rating_display [of example_lib good_result "example_env good_result"
      example_session example_user_id example_file_id "''notes.txt''" "''text/plain''" ?p]
  have m: "map_of good_result ''overall_rating'' = Some (VFloat (Decimal 42 1))"
    by (simp add: good_result_def)
  have l: "lib_str example_lib (VFloat (Decimal 42 1)) = ''4.2''"
    by (simp add: example_lib_def)
  have v: "env_lib (example_env good_result) = example_lib"
    by (simp add: example_env_def)
  have g: "dict_get good_result ''overall_rating'' VNone = VFloat (Decimal 42 1)"
    by (simp add: dict_get_def m)
  have "overall_str example_lib good_result =
      lib_str example_lib (VFloat (Decimal 42 1)) @ ''/5''"
    using t m by blast
  then have s: "overall_str example_lib good_result = ''4.2/5''"
    by (simp only: l append.simps)
  have n: "evaluations (snd (analyze (example_env good_result) example_session
      (Some notes_txt) empty_db)) =
       [eval_doc (example_env good_result) example_session example_user_id example_file_id
          ''notes.txt'' ''text/plain'' ?p good_result]"
    unfolding analyze_notes_txt_good snd_conv by simp
  have "map_of (eval_doc (example_env good_result) example_session example_user_id
        example_file_id ''notes.txt'' ''text/plain'' ?p good_result) ''overall_rating'' =
        Some (VStr (overall_str (env_lib (example_env good_result)) good_result))"
    using t by blast
  then have r1: "map_of (eval_doc (example_env good_result) example_session example_user_id
        example_file_id ''notes.txt'' ''text/plain'' ?p good_result) ''overall_rating'' =
        Some (VStr ''4.2/5'')"
    by (simp only: v s)
  have "map_of (eval_doc (example_env good_result) example_session example_user_id
        example_file_id ''notes.txt'' ''text/plain'' ?p good_result) ''overall_rating_value'' =
        Some (dict_get good_result ''overall_rating'' VNone)"
    using t by blast
  then have r2: "map_of (eval_doc (example_env good_result) example_session example_user_id
        example_file_id ''notes.txt'' ''text/plain'' ?p good_result) ''overall_rating_value'' =
        Some (VFloat (Decimal 42 1))"
    by (simp only: g)
  from s n r1 r2 show ?thesis by blast
qed

text \<open>
  Claim C6 as stated fails in one point: the response of the route has no display
  string. For the specification's example answer the display string \<^verbatim>\<open>4.2/5\<close>
  is computed, but the response carries the number 4.2 under
  \<^verbatim>\<open>overall_rating\<close> and \<^verbatim>\<open>4.2/5\<close> is none of its values.
\<close>

theorem response_has_no_display_string_counterexample:
  "overall_str example_lib good_result = ''4.2/5''
   \<and> fst (analyze (example_env good_result) example_session (Some notes_txt) empty_db) =
       Json 200
        (VDict
          [(''accuracy_score'', VInt 90), (''accuracy'', VStr ''ok''),
           (''readability_score'', VInt 80), (''readability'', VStr ''ok''),
           (''consistency_score'', VInt 85), (''consistency'', VStr ''ok''),
           (''overall_rating'', VFloat (Decimal 42 1)),
           (''summary'', VStr ''Good.'')])
   \<and> VStr ''4.2/5'' \<notin> set (map snd
          [(''accuracy_score'', VInt 90), (''accuracy'', VStr ''ok''),
           (''readability_score'', VInt 80), (''readability'', VStr ''ok''),
           (''consistency_score'', VInt 85), (''consistency'', VStr ''ok''),
           (''overall_rating'', VFloat (Decimal 42 1)),
           (''summary'', VStr ''Good.'')])"
proof -
  have m: "map_of good_result ''overall_rating'' = Some (VFloat (Decimal 42 1))"
    by (simp add: good_result_def)
  have l: "lib_str example_lib (VFloat (Decimal 42 1)) = ''4.2''"
    by (simp add: example_lib_def)
  have "overall_str example_lib good_result =
      lib_str example_lib (VFloat (Decimal 42 1)) @ ''/5''"
    by (simp add: overall_str_cases m is_int_or_float_def py_str_def)
  then have s: "overall_str example_lib good_result = ''4.2/5''"
    by (simp only: l append.simps)
  have f: "fst (analyze (example_env good_result) example_session (Some notes_txt) empty_db) =
       Json 200
        (VDict
          [(''accuracy_score'', VInt 90), (''accuracy'', VStr ''ok''),
           (''readability_score'', VInt 80), (''readability'', VStr ''ok''),
           (''consistency_score'', VInt 85), (''consistency'', VStr ''ok''),
           (''overall_rating'', VFloat (Decimal 42 1)),
           (''summary'', VStr ''Good.'')])"
    unfolding analyze_notes_txt_good fst_conv response_body_good by (rule refl)
  have n: "VStr ''4.2/5'' \<notin> set (map snd
          [(''accuracy_score'', VInt 90), (''accuracy'', VStr ''ok''),
           (''readability_score'', VInt 80), (''readability'', VStr ''ok''),
           (''consistency_score'', VInt 85), (''consistency'', VStr ''ok''),
           (''overall_rating'', VFloat (Decimal 42 1)),
           (''summary'', VStr ''Good.'')])"
    by simp
  from s f n show ?thesis by blast
qed

lemma store_and_classify_update:
  "store_and_classify (env\<lparr>env_insert_raises := r, env_ObjectId := g\<rparr>) uid filename ct b db =
   store_and_classify env uid filename ct b db"
  by (cases "env_put env")
    (simp_all add: store_and_classify_def fs_put_def split: sum.splits)

lemma store_and_classify_update_insert:
  "store_and_classify (env\<lparr>env_insert_raises := r\<rparr>) uid filename ct b db =
   store_and_classify env uid filename ct b db"
  by (cases "env_put env")
    (simp_all add: store_and_classify_def fs_put_def split: sum.splits)

lemma respond_fst_update:
  "fst (evaluate_and_respond (env\<lparr>env_insert_raises := r, env_ObjectId := g\<rparr>) sess uid
          file_id filename ct p db) =
   fst (evaluate_and_respond env sess uid file_id filename ct p db)"
  by (simp add: evaluate_and_respond_def Let_def split: option.splits bool.splits pyval.splits)

lemma save_evaluation_files:
  "files (save_evaluation env sess uid file_id filename ct p d db) = files db"
  by (simp add: save_evaluation_def split: sum.splits option.splits)

lemma respond_files:
  "files (snd (evaluate_and_respond env sess uid file_id filename ct p db)) = files db"
  by (simp add: evaluate_and_respond_def Let_def save_evaluation_files
      split: option.splits bool.splits pyval.splits)

lemma respond_evaluations_when_insert_raises:
  "env_insert_raises env = Some e \<Longrightarrow>
   evaluations (snd (evaluate_and_respond env sess uid file_id filename ct p db)) =
     evaluations db"
  by (simp add: evaluate_and_respond_def Let_def save_evaluation_def
      split: option.splits bool.splits pyval.splits sum.splits)

text \<open>
  Claim C7. The response of the route does not depend on the save step: whether
  \<^verbatim>\<open>insert_one\<close> raises or not, and whether the user id makes an
  \<^verbatim>\<open>ObjectId\<close> or not, the response is the same, and so is the blob store.
  When the insert raises, the evaluations are left as they were. In particular a
  request whose evaluation succeeds is answered with status 200 and the same
  schema fields when the insert raises.
\<close>

theorem save_failure_keeps_response:
  "fst (analyze (env\<lparr>env_insert_raises := r, env_ObjectId := g\<rparr>) sess upl db) =
     fst (analyze env sess upl db)
   \<and> files (snd (analyze (env\<lparr>env_insert_raises := r, env_ObjectId := g\<rparr>) sess upl db)) =
       files (snd (analyze env sess upl db))
   \<and> evaluations (snd (analyze (env\<lparr>env_insert_raises := Some e\<rparr>) sess upl db)) =
       evaluations db
   \<and> (\<forall>d. fst (analyze env sess upl db) = Json 200 (response_body d) \<longrightarrow>
          fst (analyze (env\<lparr>env_insert_raises := Some e\<rparr>) sess upl db) =
            Json 200 (response_body d))"
proof -
  have a: "\<And>r g. fst (analyze (env\<lparr>env_insert_raises := r, env_ObjectId := g\<rparr>) sess upl db) =
     fst (analyze env sess upl db)"
    by (simp add: analyze_def Let_def store_and_classify_update respond_fst_update
        split: bool.splits option.splits prod.splits sum.splits)
  have b: "files (snd (analyze (env\<lparr>env_insert_raises := r, env_ObjectId := g\<rparr>) sess upl
      db)) = files (snd (analyze env sess upl db))"
    by (simp add: analyze_def Let_def store_and_classify_update respond_files
        split: bool.splits option.splits prod.splits sum.splits)
  have c: "evaluations (snd (analyze (env\<lparr>env_insert_raises := Some e\<rparr>) sess upl db)) =
       evaluations db"
    by (auto simp: analyze_def Let_def respond_evaluations_when_insert_raises
        store_and_classify_update_insert
        dest: store_and_classify_evaluations
        split: bool.splits option.splits prod.splits sum.splits)
  have u: "env\<lparr>env_insert_raises := Some e, env_ObjectId := env_ObjectId env\<rparr> =
      env\<lparr>env_insert_raises := Some e\<rparr>"
    by simp
  have d: "fst (analyze (env\<lparr>env_insert_raises := Some e\<rparr>) sess upl db) =
      fst (analyze env sess upl db)"
    using a [where r = "Some e" and g = "env_ObjectId env"] unfolding u .
  from a b c d show ?thesis by simp
qed

theorem save_failure_keeps_response_witness:
  "fst (analyze ((example_env good_result)
          \<lparr>env_insert_raises := Some (OtherException ''store is down'')\<rparr>)
        example_session (Some notes_txt) empty_db) =
     Json 200 (response_body good_result)
   \<and> fst (analyze (example_env good_result) example_session (Some notes_txt) empty_db) =
       Json 200 (response_body good_result)
   \<and> evaluations (snd (analyze ((example_env good_result)
          \<lparr>env_insert_raises := Some (OtherException ''store is down'')\<rparr>)
        example_session (Some notes_txt) empty_db)) = []
   \<and> length (evaluations (snd (analyze (example_env good_result) example_session
        (Some notes_txt) empty_db))) = 1"
proof -
  note t = save_failure_keeps_response [where env = "example_env good_result"
      and r = "Some (OtherException ''store is down'')"
      and g = "env_ObjectId (example_env good_result)"
      and sess = example_session and upl = "Some notes_txt" and db = empty_db
      and e = "OtherException ''store is down''"]
  have a: "fst (analyze (example_env good_result) example_session (Some notes_txt) empty_db) =
       Json 200 (response_body good_result)"
    unfolding analyze_notes_txt_good by simp
  have n: "length (evaluations (snd (analyze (example_env good_result) example_session
        (Some notes_txt) empty_db))) = 1"
    unfolding analyze_notes_txt_good by simp
  have e: "evaluations empty_db = []"
    by (simp add: empty_db_def)
  have f: "fst (analyze ((example_env good_result)
          \<lparr>env_insert_raises := Some (OtherException ''store is down'')\<rparr>)
        example_session (Some notes_txt) empty_db) =
     Json 200 (response_body good_result)"
    using t a by blast
  have g: "evaluations (snd (analyze ((example_env good_result)
          \<lparr>env_insert_raises := Some (OtherException ''store is down'')\<rparr>)
        example_session (Some notes_txt) empty_db)) = []"
    using t e by simp
  from f a g n show ?thesis by blast
qed

section \<open>Properties of the history query\<close>
















end
